theory Spec2Isabelle
  imports Complex_Main
begin

section \<open>Strings as the code reads them\<close>

text \<open>
  A JavaScript string is modelled as a \<^typ>\<open>string\<close>: a list of code units below 256
  (the Latin-1 range). The regular expressions of the source are written out as
  functions on such lists; each one names the expression it stands for.
\<close>

definition is_space :: "char \<Rightarrow> bool" where
  \<comment> \<open>the class \<open>\s\<close> (and what \<open>trim\<close> removes): TAB, LF, VT, FF, CR, space, NBSP\<close>
  "is_space c = (c \<in> set [CHR 0x09, CHR 0x0A, CHR 0x0B, CHR 0x0C, CHR 0x0D, CHR 0x20, CHR 0xA0])"

definition ascii_upper :: "char \<Rightarrow> char" where
  "ascii_upper c =
     (case map_of (zip ''abcdefghijklmnopqrstuvwxyz'' ''ABCDEFGHIJKLMNOPQRSTUVWXYZ'') c of
        Some u \<Rightarrow> u | None \<Rightarrow> c)"

definition ascii_lower :: "char \<Rightarrow> char" where
  "ascii_lower c =
     (case map_of (zip ''ABCDEFGHIJKLMNOPQRSTUVWXYZ'' ''abcdefghijklmnopqrstuvwxyz'') c of
        Some l \<Rightarrow> l | None \<Rightarrow> c)"

definition is_alnum :: "char \<Rightarrow> bool" where
  \<comment> \<open>the class \<open>[a-zA-Z0-9]\<close>\<close>
  "is_alnum c =
     (c \<in> set ''abcdefghijklmnopqrstuvwxyzABCDEFGHIJKLMNOPQRSTUVWXYZ0123456789'')"

fun starts_with :: "string \<Rightarrow> string \<Rightarrow> bool" where
  \<comment> \<open>\<open>s.startsWith(p)\<close>\<close>
  "starts_with [] s = True"
| "starts_with (p # ps) [] = False"
| "starts_with (p # ps) (c # cs) = (if c = p then starts_with ps cs else False)"

text \<open>
  A literal pattern under the \<open>i\<close> flag: only ASCII letters fold. The pattern is folded
  once, into the upper-case and the lower-case form of each of its characters, and the
  text is compared with the two forms.
\<close>

definition fold_pattern :: "string \<Rightarrow> (char \<times> char) list" where
  "fold_pattern p = zip (map ascii_upper p) (map ascii_lower p)"

fun starts_with_folded :: "(char \<times> char) list \<Rightarrow> string \<Rightarrow> bool" where
  "starts_with_folded [] s = True"
| "starts_with_folded (ul # ps) [] = False"
| "starts_with_folded (ul # ps) (c # cs) =
     (if c = fst ul then starts_with_folded ps cs
      else if c = snd ul then starts_with_folded ps cs
      else False)"

fun find_sub :: "string \<Rightarrow> string \<Rightarrow> nat option" where
  \<comment> \<open>\<open>s.indexOf(p)\<close>: the index of the first occurrence of \<open>p\<close>\<close>
  "find_sub p [] = (if p = [] then Some 0 else None)"
| "find_sub p (c # cs) =
     (if starts_with p (c # cs) then Some 0 else map_option Suc (find_sub p cs))"

fun find_sub_folded :: "(char \<times> char) list \<Rightarrow> string \<Rightarrow> nat option" where
  \<comment> \<open>the index of the first occurrence of a folded pattern\<close>
  "find_sub_folded p [] = (if p = [] then Some 0 else None)"
| "find_sub_folded p (c # cs) =
     (if starts_with_folded p (c # cs) then Some 0
      else map_option Suc (find_sub_folded p cs))"

definition str_includes :: "string \<Rightarrow> string \<Rightarrow> bool" where
  \<comment> \<open>\<open>s.includes(p)\<close>\<close>
  "str_includes s p = (find_sub p s \<noteq> None)"

definition ends_with :: "string \<Rightarrow> string \<Rightarrow> bool" where
  \<comment> \<open>\<open>s.endsWith(p)\<close>\<close>
  "ends_with s p = (length p \<le> length s \<and> drop (length s - length p) s = p)"

definition trim :: "string \<Rightarrow> string" where
  \<comment> \<open>\<open>s.trim()\<close>\<close>
  "trim s = rev (dropWhile is_space (rev (dropWhile is_space s)))"

fun split_on :: "char \<Rightarrow> string \<Rightarrow> string list" where
  \<comment> \<open>\<open>s.split(c)\<close> for a one-character separator: n separators give n + 1 pieces\<close>
  "split_on d [] = [[]]"
| "split_on d (c # cs) =
     (if c = d then [] # split_on d cs
      else (case split_on d cs of [] \<Rightarrow> [[c]] | p # ps \<Rightarrow> (c # p) # ps))"

fun join :: "string \<Rightarrow> string list \<Rightarrow> string" where
  \<comment> \<open>\<open>xs.join(sep)\<close>\<close>
  "join sep [] = []"
| "join sep [x] = x"
| "join sep (x # y # ys) = x @ sep @ join sep (y # ys)"

function gsub :: "(string \<Rightarrow> nat option) \<Rightarrow> string \<Rightarrow> string \<Rightarrow> string" where
  \<comment> \<open>\<open>s.replace(/re/g, rep)\<close> for an expression that never matches the empty string and
      a replacement without \<open>$\<close>: \<open>m\<close> gives the length of the match that starts at the
      head of its argument; matches are taken leftmost and do not overlap\<close>
  "gsub m rep [] = []"
| "gsub m rep (c # cs) =
     (case m (c # cs) of
        None \<Rightarrow> c # gsub m rep cs
      | Some n \<Rightarrow> rep @ gsub m rep (drop (n - 1) cs))"
  by pat_completeness auto
termination
  by (relation "measure (\<lambda>(m, rep, s). length s)") auto

definition through_gt :: "string \<Rightarrow> nat option" where
  \<comment> \<open>\<open>[^>]*>\<close> at the head: the length up to and including the first \<open>>\<close>\<close>
  "through_gt s =
     (let body = takeWhile (\<lambda>c. c \<noteq> CHR ''>'') s
      in if length body < length s then Some (Suc (length body)) else None)"

definition m_comment :: "string \<Rightarrow> nat option" where
  \<comment> \<open>\<open>/<!--[\s\S]*?-->/\<close>\<close>
  "m_comment s =
     (if starts_with ''<!--'' s
      then map_option (\<lambda>i. 4 + i + 3) (find_sub ''-->'' (drop 4 s))
      else None)"

definition m_element :: "(char \<times> char) list \<Rightarrow> (char \<times> char) list \<Rightarrow> string \<Rightarrow> nat option" where
  \<comment> \<open>\<open>/OPEN[^>]*>[\s\S]*?CLOSE/i\<close> for two folded literals\<close>
  "m_element opening closing s =
     (if starts_with_folded opening s
      then (case through_gt (drop (length opening) s) of
              None \<Rightarrow> None
            | Some j \<Rightarrow>
                map_option (\<lambda>i. length opening + j + i + length closing)
                  (find_sub_folded closing (drop (length opening + j) s)))
      else None)"

definition m_metadata :: "string \<Rightarrow> nat option" where
  \<comment> \<open>\<open>/<metadata[^>]*>[\s\S]*?<\/metadata>/i\<close>\<close>
  "m_metadata = m_element (fold_pattern ''<metadata'') (fold_pattern ''</metadata>'')"

definition m_xmldecl :: "string \<Rightarrow> nat option" where
  \<comment> \<open>\<open>/<\?xml[^>]*\?>/\<close>: the \<open>?\<close> stands right before the first \<open>>\<close>\<close>
  "m_xmldecl s =
     (if starts_with ''<?xml'' s
      then (let body = takeWhile (\<lambda>c. c \<noteq> CHR ''>'') (drop 5 s)
            in if length body < length (drop 5 s) \<and> body \<noteq> [] \<and> last body = CHR ''?''
               then Some (5 + length body + 1) else None)
      else None)"

definition m_doctype :: "string \<Rightarrow> nat option" where
  \<comment> \<open>\<open>/<!DOCTYPE[^>]*>/\<close>\<close>
  "m_doctype s =
     (if starts_with ''<!DOCTYPE'' s
      then map_option (\<lambda>j. 9 + j) (through_gt (drop 9 s))
      else None)"

definition m_spaces :: "string \<Rightarrow> nat option" where
  \<comment> \<open>\<open>/\s+/\<close>\<close>
  "m_spaces s =
     (let run = takeWhile is_space s in if run = [] then None else Some (length run))"

definition m_gt_spaces_lt :: "string \<Rightarrow> nat option" where
  \<comment> \<open>\<open>/>\s+</\<close>\<close>
  "m_gt_spaces_lt s =
     (case s of
        [] \<Rightarrow> None
      | c # cs \<Rightarrow>
          (let run = takeWhile is_space cs in
           if c = CHR ''>'' \<and> run \<noteq> [] \<and> starts_with ''<'' (drop (length run) cs)
           then Some (length run + 2) else None))"

definition m_gt_lt :: "string \<Rightarrow> nat option" where
  \<comment> \<open>\<open>/></\<close>\<close>
  "m_gt_lt s = (if starts_with ''><'' s then Some 2 else None)"

definition m_blank_lines :: "string \<Rightarrow> nat option" where
  \<comment> \<open>\<open>/\n\s*\n/\<close>: the greedy \<open>\s*\<close> gives back to the last LF of the run\<close>
  "m_blank_lines s =
     (case s of
        [] \<Rightarrow> None
      | c # cs \<Rightarrow>
          (let run = takeWhile is_space cs;
               upto = rev (dropWhile (\<lambda>c. c \<noteq> CHR 0x0A) (rev run)) in
           if c = CHR 0x0A \<and> upto \<noteq> [] then Some (Suc (length upto)) else None))"

fun expand_dollar :: "string \<Rightarrow> string \<Rightarrow> string \<Rightarrow> string \<Rightarrow> string" where
  \<comment> \<open>the replacement text of \<open>s.replace(pattern, rep)\<close> for a string pattern:
      \<open>$$\<close>, \<open>$&\<close>, \<open>$`\<close> and \<open>$'\<close> are substituted, everything else is literal\<close>
  "expand_dollar matched pre post [] = []"
| "expand_dollar matched pre post [c] = [c]"
| "expand_dollar matched pre post (c # d # r) =
     (if c = CHR ''$'' \<and> d = CHR ''$'' then CHR ''$'' # expand_dollar matched pre post r
      else if c = CHR ''$'' \<and> d = CHR ''&'' then matched @ expand_dollar matched pre post r
      else if c = CHR ''$'' \<and> d = CHR 0x60 then pre @ expand_dollar matched pre post r
      else if c = CHR ''$'' \<and> d = CHR 0x27 then post @ expand_dollar matched pre post r
      else c # expand_dollar matched pre post (d # r))"

definition replace_first :: "string \<Rightarrow> string \<Rightarrow> string \<Rightarrow> string" where
  \<comment> \<open>\<open>s.replace(pat, rep)\<close> with a string pattern: the first occurrence only\<close>
  "replace_first pat rep s =
     (case find_sub pat s of
        None \<Rightarrow> s
      | Some i \<Rightarrow>
          take i s @ expand_dollar pat (take i s) (drop (i + length pat) s) rep
          @ drop (i + length pat) s)"

definition utf8_length :: "string \<Rightarrow> nat" where
  \<comment> \<open>\<open>Buffer.byteLength(s, 'utf8')\<close>: a code unit from 128 on (its top bit is set)
      takes two bytes\<close>
  "utf8_length s = sum_list (map (\<lambda>c. if digit7 c then 2 else 1) s)"

section \<open>Errors and untyped values\<close>

text \<open>
  The four error classes of \<open>types/index.ts\<close>, and \<open>PlainError\<close> for an \<open>Error\<close> raised
  by a collaborator (the file system, the optimization engine). Of the details payload
  only \<open>originalError\<close> is kept. \<open>NonError\<close> is a thrown value that is not an \<open>Error\<close>.
\<close>

datatype error_class =
  PlainError | IconifyLoaderError | SVGProcessingError | FileSystemError | ValidationError

datatype thrown =
  Exn (err_class: error_class) (message: string) (originalError: "thrown option")
| NonError

definition error_text :: "thrown \<Rightarrow> string" where
  \<comment> \<open>\<open>error instanceof Error ? error.message : 'Unknown error'\<close>\<close>
  "error_text e = (case e of Exn c m d \<Rightarrow> m | NonError \<Rightarrow> ''Unknown error'')"

definition instanceof :: "thrown \<Rightarrow> error_class \<Rightarrow> bool" where
  "instanceof e c = (case e of Exn c' m d \<Rightarrow> c' = c | NonError \<Rightarrow> False)"

text \<open>The values of a \<open>Record<string, any>\<close> that the code turns into text.\<close>

datatype prim = PUndefined | PNull | PBool bool | PNum real | PStr string

datatype json =
  JUndefined | JNull | JBool bool | JNum real | JStr string | JObj "(string \<times> json) list"

section \<open>The optimizer adapter: \<open>utils/svg-optimizer.ts\<close>\<close>

record plugin =
  p_name :: string
  p_params :: "json option"

text \<open>
  \<open>SVGOOptions\<close>: every field is optional. The 38 boolean fields are kept by name in
  \<open>switches\<close>; a field that is present with the value \<open>undefined\<close> is \<open>Some None\<close>, an
  absent one is \<open>None\<close>. For \<open>plugins\<close> and the two numbers \<open>None\<close> is an absent field.
\<close>

record SVGOOptions =
  plugins :: "plugin list option"
  floatPrecision :: "real option"
  transformPrecision :: "real option"
  switches :: "string \<rightharpoonup> bool option"

definition switch :: "SVGOOptions \<Rightarrow> string \<Rightarrow> bool option" where
  \<comment> \<open>reading \<open>options.k\<close>: \<open>None\<close> is \<open>undefined\<close>\<close>
  "switch options k = (case switches options k of None \<Rightarrow> None | Some v \<Rightarrow> v)"

definition or_false :: "bool option \<Rightarrow> bool" where
  \<comment> \<open>\<open>x || false\<close>\<close>
  "or_false x = (x = Some True)"

definition not_false :: "bool option \<Rightarrow> bool" where
  \<comment> \<open>\<open>x !== false\<close>\<close>
  "not_false x = (x \<noteq> Some False)"

definition default_switches :: "(string \<times> bool) list" where
  "default_switches =
     [(''multipass'', True),
      (''makePathsRelative'', True),
      (''convertShapeToPath'', True),
      (''mergePaths'', True),
      (''convertTransform'', True),
      (''removeOffCanvasPaths'', True),
      (''removeDimensions'', False),
      (''removeAttrs'', False),
      (''removeElementsByAttr'', False),
      (''addClassesToSVG'', False),
      (''removeTitle'', True),
      (''removeDesc'', True),
      (''removeUselessStrokeAndFill'', True),
      (''removeUnusedNS'', True),
      (''cleanupListOfValues'', True),
      (''sortAttrs'', True),
      (''removeDoctype'', True),
      (''removeXMLProcInst'', True),
      (''removeComments'', True),
      (''removeMetadata'', True),
      (''removeEditorsNSData'', True),
      (''removeEmptyAttrs'', True),
      (''removeHiddenElems'', True),
      (''removeEmptyText'', True),
      (''removeEmptyContainers'', True),
      (''minifyStyles'', True),
      (''convertStyleToAttrs'', True),
      (''convertColors'', True),
      (''convertPathData'', True),
      (''convertEllipseToCircle'', True),
      (''convertUseToSymbol'', False),
      (''convertSymbolToPath'', False),
      (''convertPolygonToPath'', False),
      (''moveGroupAttrsToElems'', True),
      (''moveElemsAttrsToGroup'', True),
      (''collapseGroups'', True),
      (''convertGToUse'', False),
      (''reusePaths'', False)]"

definition defaultOptions :: SVGOOptions where
  "defaultOptions =
     \<lparr>plugins = None, floatPrecision = Some 2, transformPrecision = Some 5,
      switches = map_of (map (\<lambda>(k, b). (k, Some b)) default_switches)\<rparr>"

definition SVGOptimizer_mergeOptions :: "SVGOOptions \<Rightarrow> SVGOOptions" where
  \<comment> \<open>\<open>{...defaultOptions, ...userOptions}\<close>, then \<open>plugins\<close> is the user's list or \<open>[]\<close>\<close>
  "SVGOptimizer_mergeOptions userOptions =
     \<lparr>plugins = (case plugins userOptions of Some ps \<Rightarrow> Some ps | None \<Rightarrow> Some []),
      floatPrecision =
        (case floatPrecision userOptions of Some x \<Rightarrow> Some x
         | None \<Rightarrow> floatPrecision defaultOptions),
      transformPrecision =
        (case transformPrecision userOptions of Some x \<Rightarrow> Some x
         | None \<Rightarrow> transformPrecision defaultOptions),
      switches = switches defaultOptions ++ switches userOptions\<rparr>"

definition buildSVGOPlugins :: "SVGOOptions \<Rightarrow> plugin list" where
  "buildSVGOPlugins options =
     (let defaultPlugins =
        [\<lparr>p_name = ''preset-default'',
          p_params = Some (JObj [(''overrides'', JObj
           [(''removeViewBox'', JBool False),
            (''removeDimensions'', JBool (or_false (switch options ''removeDimensions''))),
            (''removeAttrs'', JBool (or_false (switch options ''removeAttrs''))),
            (''removeElementsByAttr'', JBool (or_false (switch options ''removeElementsByAttr''))),
            (''addClassesToSVG'', JBool (or_false (switch options ''addClassesToSVG''))),
            (''removeTitle'', JBool (not_false (switch options ''removeTitle''))),
            (''removeDesc'', JBool (not_false (switch options ''removeDesc''))),
            (''removeUselessStrokeAndFill'',
               JBool (not_false (switch options ''removeUselessStrokeAndFill''))),
            (''removeUnusedNS'', JBool (not_false (switch options ''removeUnusedNS''))),
            (''cleanupListOfValues'', JBool (not_false (switch options ''cleanupListOfValues''))),
            (''sortAttrs'', JBool (not_false (switch options ''sortAttrs''))),
            (''removeDoctype'', JBool (not_false (switch options ''removeDoctype''))),
            (''removeXMLProcInst'', JBool (not_false (switch options ''removeXMLProcInst''))),
            (''removeComments'', JBool (not_false (switch options ''removeComments''))),
            (''removeMetadata'', JBool (not_false (switch options ''removeMetadata''))),
            (''removeEditorsNSData'', JBool (not_false (switch options ''removeEditorsNSData''))),
            (''removeEmptyAttrs'', JBool (not_false (switch options ''removeEmptyAttrs''))),
            (''removeHiddenElems'', JBool (not_false (switch options ''removeHiddenElems''))),
            (''removeEmptyText'', JBool (not_false (switch options ''removeEmptyText''))),
            (''removeEmptyContainers'',
               JBool (not_false (switch options ''removeEmptyContainers''))),
            (''minifyStyles'', JBool (not_false (switch options ''minifyStyles''))),
            (''convertStyleToAttrs'', JBool (not_false (switch options ''convertStyleToAttrs''))),
            (''convertColors'', JBool (not_false (switch options ''convertColors''))),
            (''convertPathData'', JBool (not_false (switch options ''convertPathData''))),
            (''convertEllipseToCircle'',
               JBool (not_false (switch options ''convertEllipseToCircle''))),
            (''convertUseToSymbol'', JBool (or_false (switch options ''convertUseToSymbol''))),
            (''convertSymbolToPath'', JBool (or_false (switch options ''convertSymbolToPath''))),
            (''convertPolygonToPath'', JBool (or_false (switch options ''convertPolygonToPath''))),
            (''moveGroupAttrsToElems'',
               JBool (not_false (switch options ''moveGroupAttrsToElems''))),
            (''moveElemsAttrsToGroup'',
               JBool (not_false (switch options ''moveElemsAttrsToGroup''))),
            (''collapseGroups'', JBool (not_false (switch options ''collapseGroups''))),
            (''convertGToUse'', JBool (or_false (switch options ''convertGToUse''))),
            (''reusePaths'', JBool (or_false (switch options ''reusePaths'')))])])\<rparr>]
      in defaultPlugins @ (case plugins options of Some ps \<Rightarrow> ps | None \<Rightarrow> []))"

definition SVGOptimizer_validateOptions :: "SVGOOptions \<Rightarrow> thrown + unit" where
  "SVGOptimizer_validateOptions options =
     (if (case floatPrecision options of None \<Rightarrow> False | Some x \<Rightarrow> x < 0 \<or> x > 10)
      then Inl (Exn SVGProcessingError ''floatPrecision must be between 0 and 10'' None)
      else if (case transformPrecision options of None \<Rightarrow> False | Some x \<Rightarrow> x < 0 \<or> x > 10)
      then Inl (Exn SVGProcessingError ''transformPrecision must be between 0 and 10'' None)
      else Inr ())"

text \<open>
  The engine is a collaborator: it receives the markup and the configuration
  \<open>{plugins: buildSVGOPlugins(merged), ...merged}\<close>, in which the spread of the merged
  options comes last and so decides the \<open>plugins\<close> key whenever they carry one. It
  returns an object (with or without an \<open>error\<close> descriptor) or throws.
\<close>

record svgo_config =
  config_plugins :: "plugin list"
  config_options :: SVGOOptions

datatype svgo_outcome =
  Returned (result_error: "string option") (result_data: string)
| Threw thrown

definition svgoConfig :: "SVGOOptions \<Rightarrow> svgo_config" where
  "svgoConfig mergedOptions =
     \<lparr>config_plugins =
        (case plugins mergedOptions of
           Some ps \<Rightarrow> ps
         | None \<Rightarrow> buildSVGOPlugins mergedOptions),
      config_options = mergedOptions\<rparr>"

definition optimizeSVG ::
  "(string \<Rightarrow> svgo_config \<Rightarrow> svgo_outcome) \<Rightarrow> string \<Rightarrow> SVGOOptions option \<Rightarrow> thrown + string"
where
  \<comment> \<open>the parameter \<open>options\<close> defaults to \<open>{}\<close>; the file name only goes into details\<close>
  "optimizeSVG engine svgContent options =
     (let mergedOptions =
            SVGOptimizer_mergeOptions
              (case options of
                 Some u \<Rightarrow> u
               | None \<Rightarrow> \<lparr>plugins = None, floatPrecision = None, transformPrecision = None,
                           switches = Map.empty\<rparr>)
      in case engine svgContent (svgoConfig mergedOptions) of
           Returned err data \<Rightarrow>
             (case err of
                Some e \<Rightarrow>
                  if e \<noteq> []
                  then Inl (Exn SVGProcessingError (''SVGO optimization failed: '' @ e)
                              (Some (Exn PlainError e None)))
                  else Inr data
              | None \<Rightarrow> Inr data)
         | Threw error \<Rightarrow>
             if instanceof error SVGProcessingError then Inl error
             else Inl (Exn SVGProcessingError
                         (''Unexpected error during SVG optimization: '' @ error_text error)
                         (Some error)))"

section \<open>Configuration, items and results: \<open>types/index.ts\<close>\<close>

text \<open>
  Every optional field is an \<open>option\<close>; \<open>inputDir\<close> and \<open>format\<close> are options too, since
  the loader checks at run time that they are there. \<open>svgProps\<close> keeps its entries in
  insertion order.
\<close>

record IconifyLoaderOptions =
  inputDir :: "string option"
  outputDir :: "string option"
  format :: "string option"
  svgoOptions :: "SVGOOptions option"
  optimize :: "bool option"
  generateIndex :: "bool option"
  typescript :: "bool option"
  reactComponentName :: "(string \<Rightarrow> string) option"
  svgProps :: "(string \<times> prim) list option"
  fileNameFormatter :: "(string \<Rightarrow> string) option"
  includeSubdirs :: "bool option"
  ignorePatterns :: "string list option"
  verbose :: "bool option"

definition truthy :: "bool option \<Rightarrow> bool" where
  \<comment> \<open>an optional boolean as a condition\<close>
  "truthy b = (b = Some True)"

definition truthy_str :: "string option \<Rightarrow> bool" where
  \<comment> \<open>an optional string as a condition: absent and empty are falsy\<close>
  "truthy_str s = (case s of None \<Rightarrow> False | Some t \<Rightarrow> t \<noteq> [])"

definition str_of :: "string option \<Rightarrow> string" where
  \<comment> \<open>an optional string inside a template literal\<close>
  "str_of s = (case s of None \<Rightarrow> ''undefined'' | Some t \<Rightarrow> t)"

text \<open>
  \<open>SVGMetadata\<close>: the attribute fields hold what the extractor captured, which is text
  (the interface declares \<open>width\<close> and \<open>height\<close> as numbers, the code stores strings).
\<close>

record SVGMetadata =
  name :: string
  originalName :: string
  path :: string
  size_bytes :: nat
  width :: "string option"
  height :: "string option"
  viewBox :: "string option"
  fill :: "string option"
  stroke :: "string option"
  strokeWidth :: "real option"
  className :: "string option"

record ProcessedSVG =
  metadata :: SVGMetadata
  content :: string
  optimized :: "bool option"

record GenerationResult =
  success :: bool
  files :: "string list"
  errors :: "string list"
  warnings :: "string list"

record FileInfo =
  f_path :: string
  f_name :: string
  f_extension :: string
  f_content :: "string option"

section \<open>The world outside: file system, console, engine\<close>

text \<open>
  \<open>fs_calls\<close> is every call made to the file system, \<open>disk\<close> the successful writes
  (path and text, the newest first, so that \<open>map_of\<close> reads what is in a file),
  \<open>console\<close> what was printed. Whether a call fails is up to the
  environment, which may look at the world so far.
\<close>

datatype fs_call = Mkdir string | WriteFile string string

datatype console_line = ConsoleLog string | ConsoleWarn string | ConsoleError string

record world =
  fs_calls :: "fs_call list"
  disk :: "(string \<times> string) list"
  console :: "console_line list"

record env =
  path_join :: "string \<Rightarrow> string \<Rightarrow> string"
  mkdir_error :: "world \<Rightarrow> string \<Rightarrow> thrown option"
  writeFile_error :: "world \<Rightarrow> string \<Rightarrow> string \<Rightarrow> thrown option"
  readDirectoryRecursive :: "string \<Rightarrow> bool \<Rightarrow> string list \<Rightarrow> thrown + FileInfo list"
  svgo :: "string \<Rightarrow> svgo_config \<Rightarrow> svgo_outcome"
  JSON_stringify :: "json \<Rightarrow> nat \<Rightarrow> string"
  number_text :: "real \<Rightarrow> string"
  percent_text :: "int \<Rightarrow> nat \<Rightarrow> string"
  now_iso :: string
  package_version :: string

definition fs_mkdir :: "env \<Rightarrow> string \<Rightarrow> world \<Rightarrow> (thrown + unit) \<times> world" where
  \<comment> \<open>\<open>fs.mkdir(dir, { recursive: true })\<close>\<close>
  "fs_mkdir e dir w =
     (let w' = w\<lparr>fs_calls := fs_calls w @ [Mkdir dir]\<rparr>
      in case mkdir_error e w dir of Some err \<Rightarrow> (Inl err, w') | None \<Rightarrow> (Inr (), w'))"

definition fs_writeFile :: "env \<Rightarrow> string \<Rightarrow> string \<Rightarrow> world \<Rightarrow> (thrown + unit) \<times> world" where
  \<comment> \<open>\<open>fs.writeFile(filePath, content, 'utf-8')\<close>\<close>
  "fs_writeFile e filePath text w =
     (let w' = w\<lparr>fs_calls := fs_calls w @ [WriteFile filePath text]\<rparr>
      in case writeFile_error e w filePath text of
           Some err \<Rightarrow> (Inl err, w')
         | None \<Rightarrow> (Inr (), w'\<lparr>disk := (filePath, text) # disk w\<rparr>))"

definition console_log :: "string \<Rightarrow> world \<Rightarrow> world" where
  "console_log s w = w\<lparr>console := console w @ [ConsoleLog s]\<rparr>"

definition console_warn :: "string \<Rightarrow> world \<Rightarrow> world" where
  "console_warn s w = w\<lparr>console := console w @ [ConsoleWarn s]\<rparr>"

definition console_error :: "string \<Rightarrow> world \<Rightarrow> world" where
  "console_error s w = w\<lparr>console := console w @ [ConsoleError s]\<rparr>"

definition ensureOutputDirectory :: "env \<Rightarrow> string \<Rightarrow> world \<Rightarrow> (thrown + unit) \<times> world" where
  \<comment> \<open>the same private method in each of the three generators\<close>
  "ensureOutputDirectory e dir w =
     (case fs_mkdir e dir w of
        (Inl error, w') \<Rightarrow>
          (Inl (Exn FileSystemError (''Failed to create output directory: '' @ dir) (Some error)),
           w')
      | (Inr u, w') \<Rightarrow> (Inr (), w'))"

definition output_path :: "env \<Rightarrow> IconifyLoaderOptions \<Rightarrow> string \<Rightarrow> string" where
  \<comment> \<open>\<open>options.outputDir ? path.join(options.outputDir, fileName) : `./${fileName}`\<close>\<close>
  "output_path e options fileName =
     (if truthy_str (outputDir options)
      then path_join e (str_of (outputDir options)) fileName
      else ''./'' @ fileName)"

function nat_text :: "nat \<Rightarrow> string" where
  \<comment> \<open>a non-negative integer inside a template literal\<close>
  "nat_text n =
     (if n < 10 then [''0123456789'' ! n]
      else nat_text (n div 10) @ [''0123456789'' ! (n mod 10)])"
  by pat_completeness auto
termination
  by (relation "measure id") auto

definition int_text :: "int \<Rightarrow> string" where
  "int_text i = (if i < 0 then ''-'' @ nat_text (nat (- i)) else nat_text (nat i))"

definition bool_text :: "bool \<Rightarrow> string" where
  "bool_text b = (if b then ''true'' else ''false'')"

definition String_prim :: "env \<Rightarrow> prim \<Rightarrow> string" where
  \<comment> \<open>\<open>String(value)\<close>\<close>
  "String_prim e v =
     (case v of
        PUndefined \<Rightarrow> ''undefined''
      | PNull \<Rightarrow> ''null''
      | PBool b \<Rightarrow> bool_text b
      | PNum x \<Rightarrow> number_text e x
      | PStr s \<Rightarrow> s)"

section \<open>The file reader: \<open>utils/file-reader.ts\<close>\<close>

definition SVG_EXTENSIONS :: "string list" where
  "SVG_EXTENSIONS = [''.svg'']"

definition readSVGFiles ::
  "env \<Rightarrow> string \<Rightarrow> bool option \<Rightarrow> string list option \<Rightarrow> thrown + FileInfo list"
where
  \<comment> \<open>the recursive listing itself is the environment's; the defaults of the two
      optional parameters are \<open>true\<close> and \<open>[]\<close>\<close>
  "readSVGFiles e dir subdirs patterns =
     (case readDirectoryRecursive e dir
             (case subdirs of None \<Rightarrow> True | Some b \<Rightarrow> b)
             (case patterns of None \<Rightarrow> [] | Some ps \<Rightarrow> ps) of
        Inl error \<Rightarrow>
          Inl (Exn FileSystemError (''Failed to read SVG files from directory: '' @ dir)
                 (Some error))
      | Inr found \<Rightarrow> Inr (filter (\<lambda>file. f_extension file \<in> set SVG_EXTENSIONS) found))"

definition validateSVGContent :: "string option \<Rightarrow> string \<Rightarrow> thrown + unit" where
  "validateSVGContent text fileName =
     (if \<not> truthy_str text
      then Inl (Exn ValidationError (''Invalid SVG content in file: '' @ fileName) None)
      else
        let trimmedContent = trim (str_of text) in
        if \<not> starts_with ''<svg'' trimmedContent \<and> \<not> str_includes trimmedContent ''<svg''
        then Inl (Exn SVGProcessingError
                    (''File does not appear to be a valid SVG: '' @ fileName) None)
        else if \<not> str_includes trimmedContent ''</svg>'' \<and> \<not> ends_with trimmedContent ''/>''
        then Inl (Exn SVGProcessingError
                    (''SVG file appears to be malformed: '' @ fileName) None)
        else Inr ())"

definition is_quote :: "char \<Rightarrow> bool" where
  \<comment> \<open>the class \<open>["']\<close>\<close>
  "is_quote c = (c = CHR 0x22 \<or> c = CHR 0x27)"

definition attr_at_folded :: "(char \<times> char) list \<Rightarrow> string \<Rightarrow> string option" where
  \<comment> \<open>\<open>/NAME\s*=\s*["']([^"']+)["']/i\<close> matched at the head of the text, for the folded
      name: the capture\<close>
  "attr_at_folded attr s =
     (if starts_with_folded attr s
      then (case dropWhile is_space (drop (length attr) s) of
              [] \<Rightarrow> None
            | c # r \<Rightarrow>
                if c = CHR ''=''
                then (case dropWhile is_space r of
                        [] \<Rightarrow> None
                      | q # r' \<Rightarrow>
                          if is_quote q
                          then (let v = takeWhile (\<lambda>c. \<not> is_quote c) r'
                                in if v \<noteq> [] \<and> length v < length r' then Some v else None)
                          else None)
                else None)
      else None)"


fun match_attr_folded :: "(char \<times> char) list \<Rightarrow> string \<Rightarrow> string option" where
  "match_attr_folded attr [] = None"
| "match_attr_folded attr (c # cs) =
     (case attr_at_folded attr (c # cs) of
        Some v \<Rightarrow> Some v
      | None \<Rightarrow> match_attr_folded attr cs)"

definition match_attr :: "string \<Rightarrow> string \<Rightarrow> string option" where
  \<comment> \<open>\<open>content.match(/NAME\s*=\s*["']([^"']+)["']/i)\<close>: the capture of the first match\<close>
  "match_attr attr s = match_attr_folded (fold_pattern attr) s"

record SVGAttributes =
  attr_viewBox :: "string option"
  attr_width :: "string option"
  attr_height :: "string option"
  attr_fill :: "string option"
  attr_stroke :: "string option"

definition extractSVGAttributes :: "string \<Rightarrow> SVGAttributes" where
  "extractSVGAttributes text =
     \<lparr>attr_viewBox = match_attr ''viewBox'' text,
      attr_width = match_attr ''width'' text,
      attr_height = match_attr ''height'' text,
      attr_fill = match_attr ''fill'' text,
      attr_stroke = match_attr ''stroke'' text\<rparr>"

section \<open>Objects with ordered keys\<close>

text \<open>
  An object literal is a list of entries in insertion order: assigning an existing key
  replaces its value in place, assigning a new key appends it. (Keys that look like
  array indices, which JavaScript enumerates first, are not told apart.)
\<close>

fun obj_set :: "string \<Rightarrow> 'v \<Rightarrow> (string \<times> 'v) list \<Rightarrow> (string \<times> 'v) list" where
  "obj_set k v [] = [(k, v)]"
| "obj_set k v ((k', v') # r) = (if k' = k then (k, v) # r else (k', v') # obj_set k v r)"

definition obj_spread :: "(string \<times> 'v) list \<Rightarrow> (string \<times> 'v) list \<Rightarrow> (string \<times> 'v) list" where
  \<comment> \<open>\<open>{...base, ...extra}\<close>\<close>
  "obj_spread base extra = foldl (\<lambda>acc (k, v). obj_set k v acc) base extra"

definition nl :: string where
  "nl = [CHR 0x0A]"

definition dq :: string where
  "dq = [CHR 0x22]"

definition sq :: string where
  "sq = [CHR 0x27]"

definition empty_result :: GenerationResult where
  "empty_result = \<lparr>success = True, files = [], errors = [], warnings = []\<rparr>"

definition when_verbose :: "IconifyLoaderOptions \<Rightarrow> (world \<Rightarrow> world) \<Rightarrow> world \<Rightarrow> world" where
  \<comment> \<open>\<open>if (options.verbose) { console ... }\<close>\<close>
  "when_verbose options say w = (if truthy (verbose options) then say w else w)"

definition index_path :: "env \<Rightarrow> IconifyLoaderOptions \<Rightarrow> string" where
  "index_path e options =
     output_path e options (''index.'' @ (if truthy (typescript options) then ''ts'' else ''js''))"

section \<open>The React generator: \<open>generators/react-generator.ts\<close>\<close>

record ReactComponentTemplate =
  t_componentName :: string
  t_props :: "string list"
  t_svgContent :: string
  t_typescript :: bool

definition defaultProps :: "(string \<times> prim) list" where
  "defaultProps =
     [(''width'', PStr ''1em''), (''height'', PStr ''1em''),
      (''fill'', PStr ''currentColor''), (''aria-hidden'', PStr ''true'')]"

definition getComponentName :: "string \<Rightarrow> IconifyLoaderOptions \<Rightarrow> string" where
  \<comment> \<open>after the first step every character of a word is an ASCII letter or digit, so
      the case mappings are the ASCII ones\<close>
  "getComponentName original options =
     (case reactComponentName options of
        Some namer \<Rightarrow> namer original
      | None \<Rightarrow>
          (let spaced = map (\<lambda>c. if is_alnum c then c else CHR '' '') original;
               ws = map (\<lambda>word. case word of
                                    [] \<Rightarrow> []
                                  | c # r \<Rightarrow> ascii_upper c # map ascii_lower r)
                        (split_on (CHR '' '') spaced);
               joined = concat ws
           in case joined of [] \<Rightarrow> [] | c # r \<Rightarrow> ascii_upper c # r))"

definition set_if_present ::
  "string \<Rightarrow> string option \<Rightarrow> (string \<times> prim) list \<Rightarrow> (string \<times> prim) list"
where
  \<comment> \<open>\<open>if (svg.metadata[k]) mergedProps[k] = svg.metadata[k]\<close>\<close>
  "set_if_present k v obj = (if truthy_str v then obj_set k (PStr (str_of v)) obj else obj)"

definition generateProps :: "env \<Rightarrow> ProcessedSVG \<Rightarrow> IconifyLoaderOptions \<Rightarrow> string list" where
  "generateProps e svg options =
     (let m = metadata svg;
          p0 = obj_spread defaultProps (case svgProps options of None \<Rightarrow> [] | Some ps \<Rightarrow> ps);
          p1 = set_if_present ''width'' (width m) p0;
          p2 = set_if_present ''height'' (height m) p1;
          p3 = set_if_present ''viewBox'' (viewBox m) p2;
          p4 = set_if_present ''fill'' (fill m) p3;
          p5 = set_if_present ''stroke'' (stroke m) p4;
          p6 = (case strokeWidth m of
                  None \<Rightarrow> p5
                | Some x \<Rightarrow> if x \<noteq> 0 then obj_set ''strokeWidth'' (PNum x) p5 else p5);
          mergedProps = set_if_present ''className'' (className m) p6
      in map (\<lambda>(k, v).
                case v of
                  PStr t \<Rightarrow> k @ ''='' @ dq @ t @ dq
                | PNum x \<Rightarrow> k @ ''={'' @ number_text e x @ ''}''
                | PBool b \<Rightarrow> k @ ''={'' @ bool_text b @ ''}''
                | PNull \<Rightarrow> k @ ''='' @ dq @ String_prim e v @ dq
                | PUndefined \<Rightarrow> k @ ''='' @ dq @ String_prim e v @ dq)
             mergedProps)"

definition React_prepareSVGContent :: "ProcessedSVG \<Rightarrow> string" where
  "React_prepareSVGContent svg =
     (let c0 = content svg;
          c1 = gsub m_xmldecl [] c0;
          c2 = gsub m_doctype [] c1;
          c3 = gsub m_comment [] c2;
          c4 = gsub m_spaces '' '' c3;
          c5 = gsub m_gt_spaces_lt ''><'' c4;
          ls = split_on (CHR 0x0A) c5;
          indentedLines =
            map (\<lambda>(index, line).
                   let trimmed = trim line in
                   if index = (0::nat) then trimmed
                   else if trimmed \<noteq> [] then ''      '' @ trimmed
                   else [])
                (zip [0 ..< length ls] ls)
      in join nl indentedLines)"

definition createComponentTemplate ::
  "env \<Rightarrow> ProcessedSVG \<Rightarrow> string \<Rightarrow> IconifyLoaderOptions \<Rightarrow> ReactComponentTemplate"
where
  "createComponentTemplate e svg componentName options =
     \<lparr>t_componentName = componentName,
      t_props = generateProps e svg options,
      t_svgContent = React_prepareSVGContent svg,
      t_typescript = truthy (typescript options)\<rparr>"

definition renderComponent :: "ReactComponentTemplate \<Rightarrow> string" where
  "renderComponent template =
     (let componentName = t_componentName template;
          svgContent = t_svgContent template
      in if t_typescript template
         then concat
           [''import React from 'react';'' @ nl,
            nl,
            ''export interface '' @ componentName
              @ ''Props extends React.SVGProps<SVGSVGElement> {'' @ nl,
            ''  size?: number | string;'' @ nl,
            ''}'' @ nl,
            nl,
            ''const '' @ componentName @ '': React.FC<'' @ componentName @ ''Props> = ({'' @ nl,
            ''  size = '1em','' @ nl,
            ''  fill = 'currentColor','' @ nl,
            ''  ...props'' @ nl,
            ''}) => {'' @ nl,
            ''  return ('' @ nl,
            ''    <svg'' @ nl,
            ''      width={size}'' @ nl,
            ''      height={size}'' @ nl,
            ''      fill={fill}'' @ nl,
            ''      viewBox='' @ dq @ ''0 0 24 24'' @ dq @ nl,
            ''      {...props}'' @ nl,
            ''    >'' @ nl,
            svgContent @ nl,
            ''    </svg>'' @ nl,
            ''  );'' @ nl,
            ''};'' @ nl,
            nl,
            ''export default '' @ componentName @ '';'' @ nl]
         else concat
           [''import React from 'react';'' @ nl,
            nl,
            ''const '' @ componentName @ '' = ({'' @ nl,
            ''  size = '1em','' @ nl,
            ''  fill = 'currentColor','' @ nl,
            ''  ...props'' @ nl,
            ''}) => {'' @ nl,
            ''  return ('' @ nl,
            ''    <svg'' @ nl,
            ''      width={size}'' @ nl,
            ''      height={size}'' @ nl,
            ''      fill={fill}'' @ nl,
            ''      viewBox='' @ dq @ ''0 0 24 24'' @ dq @ nl,
            ''      {...props}'' @ nl,
            ''    >'' @ nl,
            svgContent @ nl,
            ''    </svg>'' @ nl,
            ''  );'' @ nl,
            ''};'' @ nl,
            nl,
            ''export default '' @ componentName @ '';'' @ nl])"

definition component_fileName :: "IconifyLoaderOptions \<Rightarrow> string \<Rightarrow> string" where
  "component_fileName options componentName =
     (case fileNameFormatter options of
        Some formatter \<Rightarrow> formatter componentName
      | None \<Rightarrow> componentName @ ''.'' @ (if truthy (typescript options) then ''tsx'' else ''jsx''))"

definition generateComponentFile ::
  "env \<Rightarrow> IconifyLoaderOptions \<Rightarrow> ProcessedSVG \<Rightarrow> world \<Rightarrow> (thrown + string) \<times> world"
where
  "generateComponentFile e options svg w =
     (let componentName = getComponentName (name (metadata svg)) options;
          template = createComponentTemplate e svg componentName options;
          filePath = output_path e options (component_fileName options componentName)
      in case fs_writeFile e filePath (renderComponent template) w of
           (Inl error, w') \<Rightarrow> (Inl error, w')
         | (Inr u, w') \<Rightarrow> (Inr filePath, w'))"

definition React_index_content :: "IconifyLoaderOptions \<Rightarrow> ProcessedSVG list \<Rightarrow> string" where
  "React_index_content options svgs =
     (let names = map (\<lambda>svg. getComponentName (name (metadata svg)) options) svgs;
          exports = map (\<lambda>n. ''export { default as '' @ n @ '' } from '' @ sq @ ''./'' @ n
                               @ sq @ '';'') names;
          types = (if truthy (typescript options)
                   then map (\<lambda>n. ''  '' @ n @ '': typeof '' @ n @ '';'') names else [])
      in join nl exports
         @ (if truthy (typescript options) \<and> types \<noteq> []
            then nl @ nl @ ''export interface IconComponents {'' @ nl @ join nl types
                 @ nl @ ''}'' @ nl
            else []))"

definition React_generateIndexFile ::
  "env \<Rightarrow> IconifyLoaderOptions \<Rightarrow> ProcessedSVG list \<Rightarrow> world \<Rightarrow> (thrown + string) \<times> world"
where
  "React_generateIndexFile e options svgs w =
     (case fs_writeFile e (index_path e options) (React_index_content options svgs) w of
        (Inl error, w') \<Rightarrow> (Inl error, w')
      | (Inr u, w') \<Rightarrow> (Inr (index_path e options), w'))"

fun components_loop ::
  "env \<Rightarrow> IconifyLoaderOptions \<Rightarrow> ProcessedSVG list \<Rightarrow> GenerationResult \<times> world
     \<Rightarrow> GenerationResult \<times> world"
where
  \<comment> \<open>\<open>for (const svg of svgs) { try { ... } catch (error) { ... } }\<close>\<close>
  "components_loop e options [] (r, w) = (r, w)"
| "components_loop e options (svg # svgs) (r, w) =
     (case generateComponentFile e options svg w of
        (Inr componentFile, w') \<Rightarrow>
          components_loop e options svgs
            (r\<lparr>files := files r @ [componentFile]\<rparr>,
             when_verbose options
               (console_log (''Generated React component: '' @ componentFile)) w')
      | (Inl error, w') \<Rightarrow>
          (let errorMessage = ''Failed to generate component for '' @ name (metadata svg)
                                @ '': '' @ error_text error
           in components_loop e options svgs
                (r\<lparr>errors := errors r @ [errorMessage]\<rparr>,
                 when_verbose options (console_error errorMessage) w')))"

definition generateComponents ::
  "env \<Rightarrow> IconifyLoaderOptions \<Rightarrow> ProcessedSVG list \<Rightarrow> world \<Rightarrow> GenerationResult \<times> world"
where
  "generateComponents e options svgs w =
     (case (if truthy_str (outputDir options)
            then ensureOutputDirectory e (str_of (outputDir options)) w
            else (Inr (), w)) of
        (Inl error, w1) \<Rightarrow>
          (empty_result\<lparr>success := False,
                         errors := [''Generation failed: '' @ error_text error]\<rparr>, w1)
      | (Inr u, w1) \<Rightarrow>
          (case components_loop e options svgs (empty_result, w1) of
             (r2, w2) \<Rightarrow>
               (case (if truthy (generateIndex options)
                      then (case React_generateIndexFile e options svgs w2 of
                              (Inr indexFile, w') \<Rightarrow>
                                (r2\<lparr>files := files r2 @ [indexFile]\<rparr>,
                                 when_verbose options
                                   (console_log (''Generated index file: '' @ indexFile)) w')
                            | (Inl error, w') \<Rightarrow>
                                (r2\<lparr>errors := errors r2
                                      @ [''Failed to generate index file: '' @ error_text error]\<rparr>,
                                 w'))
                      else (r2, w2)) of
                  (r3, w3) \<Rightarrow> (r3\<lparr>success := (errors r3 = [])\<rparr>, w3))))"

section \<open>The SVG generator: \<open>generators/svg-generator.ts\<close>\<close>

fun find_tag_folded :: "(char \<times> char) list \<Rightarrow> string \<Rightarrow> string option" where
  \<comment> \<open>\<open>/OPEN([^>]*?)>/i\<close> for a folded literal: the capture of the first match\<close>
  "find_tag_folded opening [] = None"
| "find_tag_folded opening (c # cs) =
     (if starts_with_folded opening (c # cs)
      then (let r = drop (length opening) (c # cs);
                body = takeWhile (\<lambda>x. x \<noteq> CHR ''>'') r
            in if length body < length r then Some body else find_tag_folded opening cs)
      else find_tag_folded opening cs)"

definition find_svg_tag :: "string \<Rightarrow> string option" where
  \<comment> \<open>\<open>svgContent.match(/<svg([^>]*?)>/i)\<close>: the capture of the first match\<close>
  "find_svg_tag s = find_tag_folded (fold_pattern ''<svg'') s"

definition addCustomAttributes :: "env \<Rightarrow> string \<Rightarrow> (string \<times> prim) list \<Rightarrow> string" where
  "addCustomAttributes e svgContent customProps =
     (case find_svg_tag svgContent of
        None \<Rightarrow> svgContent
      | Some existingAttributes \<Rightarrow>
          (let newAttributes =
                 foldl (\<lambda>acc (key, v).
                          if v \<noteq> PUndefined \<and> v \<noteq> PNull
                          then acc @ '' '' @ key @ ''='' @ dq @ String_prim e v @ dq
                          else acc)
                       existingAttributes customProps
           in replace_first (''<svg'' @ existingAttributes @ ''>'')
                (''<svg'' @ newAttributes @ ''>'') svgContent))"

definition formatSVGContent :: "string \<Rightarrow> string" where
  "formatSVGContent text =
     (let f1 = gsub m_spaces '' '' text;
          f2 = gsub m_gt_spaces_lt ''><'' f1;
          f3 = gsub m_gt_lt (''>'' @ nl @ ''<'') f2;
          f4 = gsub m_blank_lines nl f3
      in trim f4)"

definition SVG_prepareSVGContent :: "env \<Rightarrow> ProcessedSVG \<Rightarrow> IconifyLoaderOptions \<Rightarrow> string" where
  \<comment> \<open>\<open>options.svgoOptions?.removeComments !== false\<close> reads the user's options as given\<close>
  "SVG_prepareSVGContent e svg options =
     (let c0 = content svg;
          c1 = (case svgProps options of
                  Some props \<Rightarrow> addCustomAttributes e c0 props
                | None \<Rightarrow> c0);
          c2 = (if not_false (case svgoOptions options of
                                None \<Rightarrow> None
                              | Some so \<Rightarrow> switch so ''removeComments'')
                then gsub m_comment [] c1 else c1);
          c3 = (if not_false (case svgoOptions options of
                                None \<Rightarrow> None
                              | Some so \<Rightarrow> switch so ''removeMetadata'')
                then gsub m_metadata [] c2 else c2)
      in formatSVGContent c3)"

definition svg_fileName :: "IconifyLoaderOptions \<Rightarrow> ProcessedSVG \<Rightarrow> string" where
  "svg_fileName options svg =
     (case fileNameFormatter options of
        Some formatter \<Rightarrow> formatter (name (metadata svg))
      | None \<Rightarrow> name (metadata svg) @ ''.svg'')"

definition generateSVGFile ::
  "env \<Rightarrow> IconifyLoaderOptions \<Rightarrow> ProcessedSVG \<Rightarrow> world \<Rightarrow> (thrown + string) \<times> world"
where
  "generateSVGFile e options svg w =
     (let filePath = output_path e options (svg_fileName options svg)
      in case fs_writeFile e filePath (SVG_prepareSVGContent e svg options) w of
           (Inl error, w') \<Rightarrow> (Inl error, w')
         | (Inr u, w') \<Rightarrow> (Inr filePath, w'))"

definition getVariableName :: "string \<Rightarrow> IconifyLoaderOptions \<Rightarrow> string" where
  "getVariableName original options =
     (case fileNameFormatter options of
        Some formatter \<Rightarrow> formatter original
      | None \<Rightarrow>
          (let a = map (\<lambda>c. if is_alnum c then c else CHR ''_'') original;
               b = map ascii_lower a;
               c = dropWhile (\<lambda>x. x = CHR ''_'') b
           in if c \<noteq> [] \<and> last c = CHR ''_'' then butlast c else c))"

definition escape_js :: "string \<Rightarrow> string" where
  \<comment> \<open>the four \<open>replace\<close> calls, in the order of the source\<close>
  "escape_js text =
     (let a = concat (map (\<lambda>c. if c = CHR 0x5C then [CHR 0x5C, CHR 0x5C] else [c]) text);
          b = concat (map (\<lambda>c. if c = CHR 0x27 then [CHR 0x5C, CHR 0x27] else [c]) a);
          c = concat (map (\<lambda>c. if c = CHR 0x22 then [CHR 0x5C, CHR 0x22] else [c]) b)
      in concat (map (\<lambda>c. if c = CHR 0x0A then [CHR 0x5C, CHR ''n''] else [c]) c))"

definition SVG_index_content :: "env \<Rightarrow> IconifyLoaderOptions \<Rightarrow> ProcessedSVG list \<Rightarrow> string" where
  "SVG_index_content e options svgs =
     (let exports =
            map (\<lambda>svg. ''export const '' @ getVariableName (name (metadata svg)) options
                        @ '' = '' @ sq @ escape_js (SVG_prepareSVGContent e svg options)
                        @ sq @ '';'') svgs;
          types = (if truthy (typescript options)
                   then map (\<lambda>svg. ''  '' @ getVariableName (name (metadata svg)) options
                                     @ '': string;'') svgs
                   else [])
      in join (nl @ nl) exports
         @ (if truthy (typescript options) \<and> types \<noteq> []
            then nl @ nl @ ''export interface SVGIcons {'' @ nl @ join nl types @ nl @ ''}'' @ nl
            else []))"

definition SVG_generateIndexFile ::
  "env \<Rightarrow> IconifyLoaderOptions \<Rightarrow> ProcessedSVG list \<Rightarrow> world \<Rightarrow> (thrown + string) \<times> world"
where
  "SVG_generateIndexFile e options svgs w =
     (case fs_writeFile e (index_path e options) (SVG_index_content e options svgs) w of
        (Inl error, w') \<Rightarrow> (Inl error, w')
      | (Inr u, w') \<Rightarrow> (Inr (index_path e options), w'))"

fun svgs_loop ::
  "env \<Rightarrow> IconifyLoaderOptions \<Rightarrow> ProcessedSVG list \<Rightarrow> GenerationResult \<times> world
     \<Rightarrow> GenerationResult \<times> world"
where
  \<comment> \<open>\<open>for (const svg of svgs) { try { ... } catch (error) { ... } }\<close>\<close>
  "svgs_loop e options [] (r, w) = (r, w)"
| "svgs_loop e options (svg # svgs) (r, w) =
     (case generateSVGFile e options svg w of
        (Inr svgFile, w') \<Rightarrow>
          svgs_loop e options svgs
            (r\<lparr>files := files r @ [svgFile]\<rparr>,
             when_verbose options (console_log (''Generated SVG file: '' @ svgFile)) w')
      | (Inl error, w') \<Rightarrow>
          (let errorMessage = ''Failed to generate SVG for '' @ name (metadata svg)
                                @ '': '' @ error_text error
           in svgs_loop e options svgs
                (r\<lparr>errors := errors r @ [errorMessage]\<rparr>,
                 when_verbose options (console_error errorMessage) w')))"

definition generateSVGs ::
  "env \<Rightarrow> IconifyLoaderOptions \<Rightarrow> ProcessedSVG list \<Rightarrow> world \<Rightarrow> GenerationResult \<times> world"
where
  "generateSVGs e options svgs w =
     (case (if truthy_str (outputDir options)
            then ensureOutputDirectory e (str_of (outputDir options)) w
            else (Inr (), w)) of
        (Inl error, w1) \<Rightarrow>
          (empty_result\<lparr>success := False,
                         errors := [''SVG generation failed: '' @ error_text error]\<rparr>, w1)
      | (Inr u, w1) \<Rightarrow>
          (case svgs_loop e options svgs (empty_result, w1) of
             (r2, w2) \<Rightarrow>
               (case (if truthy (generateIndex options)
                      then (case SVG_generateIndexFile e options svgs w2 of
                              (Inr indexFile, w') \<Rightarrow>
                                (r2\<lparr>files := files r2 @ [indexFile]\<rparr>,
                                 when_verbose options
                                   (console_log (''Generated SVG index file: '' @ indexFile)) w')
                            | (Inl error, w') \<Rightarrow>
                                (r2\<lparr>errors := errors r2
                                      @ [''Failed to generate SVG index file: ''
                                         @ error_text error]\<rparr>,
                                 w'))
                      else (r2, w2)) of
                  (r3, w3) \<Rightarrow> (r3\<lparr>success := (errors r3 = [])\<rparr>, w3))))"

section \<open>The JSON generator: \<open>generators/json-generator.ts\<close>\<close>

text \<open>
  The generator builds a value and hands it to \<open>JSON.stringify\<close>, which is the
  environment's, as are the clock and the package version.
\<close>

definition opt_str :: "string option \<Rightarrow> json" where
  "opt_str s = (case s of None \<Rightarrow> JUndefined | Some t \<Rightarrow> JStr t)"

definition metadata_entries :: "ProcessedSVG \<Rightarrow> (string \<times> json) list" where
  "metadata_entries svg =
     (let m = metadata svg in
      [(''name'', JStr (name m)),
       (''originalName'', JStr (originalName m)),
       (''path'', JStr (path m)),
       (''size'', JNum (real (size_bytes m))),
       (''width'', opt_str (width m)),
       (''height'', opt_str (height m)),
       (''viewBox'', opt_str (viewBox m)),
       (''fill'', opt_str (fill m)),
       (''stroke'', opt_str (stroke m)),
       (''strokeWidth'', (case strokeWidth m of None \<Rightarrow> JUndefined | Some x \<Rightarrow> JNum x)),
       (''className'', opt_str (className m))])"

definition createJSONOutput :: "env \<Rightarrow> ProcessedSVG list \<Rightarrow> IconifyLoaderOptions \<Rightarrow> json" where
  "createJSONOutput e svgs options =
     (let icons =
            foldl (\<lambda>acc svg.
                     obj_set (case fileNameFormatter options of
                                Some formatter \<Rightarrow> formatter (name (metadata svg))
                              | None \<Rightarrow> name (metadata svg))
                       (JObj (metadata_entries svg
                              @ (if truthy (verbose options)
                                 then [(''content'', JStr (content svg))] else [])))
                       acc)
                  [] svgs
      in JObj
           [(''icons'', JObj icons),
            (''metadata'', JObj
               [(''totalIcons'', JNum (real (length svgs))),
                (''generatedAt'', JStr (now_iso e)),
                (''version'', JStr (package_version e)),
                (''format'', opt_str (format options)),
                (''optimized'', JBool (or_false (optimize options))),
                (''options'', (if truthy (verbose options) then JObj [] else JUndefined))])])"

definition createIndividualJSONOutput :: "env \<Rightarrow> ProcessedSVG \<Rightarrow> json" where
  "createIndividualJSONOutput e svg =
     JObj (metadata_entries svg
           @ [(''content'', JStr (content svg)),
              (''optimized'', JBool (or_false (optimized svg))),
              (''metadata'', JObj [(''generatedAt'', JStr (now_iso e)),
                                   (''version'', JStr (package_version e))])])"

definition indent_of :: "IconifyLoaderOptions \<Rightarrow> nat" where
  \<comment> \<open>\<open>options.verbose ? 2 : 0\<close>\<close>
  "indent_of options = (if truthy (verbose options) then 2 else 0)"

definition generateJSONFile ::
  "env \<Rightarrow> IconifyLoaderOptions \<Rightarrow> ProcessedSVG list \<Rightarrow> world \<Rightarrow> (thrown + string) \<times> world"
where
  "generateJSONFile e options svgs w =
     (let fileName = (case fileNameFormatter options of
                        Some formatter \<Rightarrow> formatter ''icons'' @ ''.json''
                      | None \<Rightarrow> ''icons.json'');
          filePath = output_path e options fileName
      in case fs_writeFile e filePath
                (JSON_stringify e (createJSONOutput e svgs options) (indent_of options)) w of
           (Inl error, w') \<Rightarrow> (Inl error, w')
         | (Inr u, w') \<Rightarrow> (Inr filePath, w'))"

definition individual_path :: "env \<Rightarrow> IconifyLoaderOptions \<Rightarrow> ProcessedSVG \<Rightarrow> string" where
  "individual_path e options svg =
     output_path e options
       (case fileNameFormatter options of
          Some formatter \<Rightarrow> formatter (name (metadata svg)) @ ''.json''
        | None \<Rightarrow> name (metadata svg) @ ''.json'')"

fun generateIndividualJSONFiles ::
  "env \<Rightarrow> IconifyLoaderOptions \<Rightarrow> ProcessedSVG list \<Rightarrow> string list \<times> world
     \<Rightarrow> (thrown + string list) \<times> world"
where
  \<comment> \<open>the loop of the method, from the files collected so far: the \<open>catch\<close> inside the
      loop throws again, so the first failing write ends the loop\<close>
  "generateIndividualJSONFiles e options [] (fs, w) = (Inr fs, w)"
| "generateIndividualJSONFiles e options (svg # svgs) (fs, w) =
     (case fs_writeFile e (individual_path e options svg)
             (JSON_stringify e (createIndividualJSONOutput e svg) (indent_of options)) w of
        (Inl error, w') \<Rightarrow>
          (Inl (Exn FileSystemError
                  (''Failed to generate individual JSON file for '' @ name (metadata svg))
                  (Some error)), w')
      | (Inr u, w') \<Rightarrow>
          generateIndividualJSONFiles e options svgs (fs @ [individual_path e options svg], w'))"

definition generateJSON ::
  "env \<Rightarrow> IconifyLoaderOptions \<Rightarrow> ProcessedSVG list \<Rightarrow> world \<Rightarrow> GenerationResult \<times> world"
where
  "generateJSON e options svgs w =
     (case (if truthy_str (outputDir options)
            then ensureOutputDirectory e (str_of (outputDir options)) w
            else (Inr (), w)) of
        (Inl error, w1) \<Rightarrow>
          (empty_result\<lparr>success := False,
                         errors := [''JSON generation failed: '' @ error_text error]\<rparr>, w1)
      | (Inr u, w1) \<Rightarrow>
          (case (case generateJSONFile e options svgs w1 of
                   (Inr jsonFile, w') \<Rightarrow>
                     (empty_result\<lparr>files := [jsonFile]\<rparr>,
                      when_verbose options (console_log (''Generated JSON file: '' @ jsonFile)) w')
                 | (Inl error, w') \<Rightarrow>
                     (let errorMessage = ''Failed to generate JSON file: '' @ error_text error
                      in (empty_result\<lparr>errors := [errorMessage]\<rparr>,
                          when_verbose options (console_error errorMessage) w'))) of
             (r2, w2) \<Rightarrow>
               (case (if truthy (generateIndex options)
                      then (case generateIndividualJSONFiles e options svgs ([], w2) of
                              (Inr individualFiles, w') \<Rightarrow>
                                (r2\<lparr>files := files r2 @ individualFiles\<rparr>,
                                 when_verbose options
                                   (console_log (''Generated '' @ nat_text (length individualFiles)
                                                 @ '' individual JSON files'')) w')
                            | (Inl error, w') \<Rightarrow>
                                (r2\<lparr>errors := errors r2
                                      @ [''Failed to generate individual JSON files: ''
                                         @ error_text error]\<rparr>,
                                 w'))
                      else (r2, w2)) of
                  (r3, w3) \<Rightarrow> (r3\<lparr>success := (errors r3 = [])\<rparr>, w3))))"

section \<open>The loader: \<open>core/iconify-loader.ts\<close>\<close>

definition validFormats :: "string list" where
  "validFormats = [''svg'', ''react'', ''json'']"

definition IconifyLoader_validateOptions :: "IconifyLoaderOptions \<Rightarrow> thrown + unit" where
  "IconifyLoader_validateOptions options =
     (if \<not> truthy_str (inputDir options)
      then Inl (Exn ValidationError ''Input directory is required'' None)
      else if \<not> truthy_str (format options)
      then Inl (Exn ValidationError ''Output format is required'' None)
      else if str_of (format options) \<notin> set validFormats
      then Inl (Exn ValidationError
                  (''Invalid format. Must be one of: '' @ join '', '' validFormats) None)
      else (case svgoOptions options of
              Some so \<Rightarrow> SVGOptimizer_validateOptions so
            | None \<Rightarrow> Inr ()))"

definition readSVGs :: "env \<Rightarrow> IconifyLoaderOptions \<Rightarrow> thrown + FileInfo list" where
  \<comment> \<open>the \<open>ValidationError\<close> is thrown inside the \<open>try\<close> and passed on by its \<open>catch\<close>\<close>
  "readSVGs e options =
     (case (case readSVGFiles e (str_of (inputDir options)) (includeSubdirs options)
                   (ignorePatterns options) of
              Inl error \<Rightarrow> Inl error
            | Inr found \<Rightarrow>
                if length found = 0
                then Inl (Exn ValidationError
                            (''No SVG files found in directory: '' @ str_of (inputDir options))
                            None)
                else Inr found) of
        Inr found \<Rightarrow> Inr found
      | Inl error \<Rightarrow>
          if instanceof error ValidationError then Inl error
          else Inl (Exn FileSystemError
                      (''Failed to read SVG files: '' @ error_text error) (Some error)))"

definition file_metadata :: "FileInfo \<Rightarrow> SVGMetadata" where
  \<comment> \<open>\<open>{ name, originalName, path, size, ...attributes }\<close>\<close>
  "file_metadata file =
     (let text = str_of (f_content file); attributes = extractSVGAttributes text in
      \<lparr>name = f_name file, originalName = f_name file, path = f_path file,
       size_bytes = utf8_length text,
       width = attr_width attributes, height = attr_height attributes,
       viewBox = attr_viewBox attributes, fill = attr_fill attributes,
       stroke = attr_stroke attributes, strokeWidth = None, className = None\<rparr>)"

definition processSVG ::
  "env \<Rightarrow> IconifyLoaderOptions \<Rightarrow> FileInfo \<Rightarrow> world \<Rightarrow> (thrown + ProcessedSVG) \<times> world"
where
  \<comment> \<open>the body of the loop of \<open>processSVGs\<close>, with both of its \<open>try\<close> blocks\<close>
  "processSVG e options file w =
     (case validateSVGContent (f_content file) (f_name file) of
        Inl error \<Rightarrow>
          (Inl error,
           when_verbose options
             (console_error (''Failed to process '' @ f_name file @ '': '' @ error_text error)) w)
      | Inr u \<Rightarrow>
          (let raw = str_of (f_content file) in
           if truthy (optimize options)
           then (case optimizeSVG (svgo e) raw (svgoOptions options) of
                   Inr better \<Rightarrow>
                     (Inr \<lparr>metadata = file_metadata file, content = better,
                           optimized = Some True\<rparr>,
                      when_verbose options
                        (console_log
                           (''Optimized '' @ f_name file @ '': ''
                            @ int_text (int (utf8_length raw) - int (utf8_length better))
                            @ '' bytes saved (''
                            @ percent_text e (int (utf8_length raw) - int (utf8_length better))
                                (utf8_length raw)
                            @ ''%)'')) w)
                 | Inl error \<Rightarrow>
                     (Inr \<lparr>metadata = file_metadata file, content = raw,
                           optimized = Some False\<rparr>,
                      when_verbose options
                        (console_warn (''Failed to optimize '' @ f_name file @ '': ''
                                       @ error_text error)) w))
           else (Inr \<lparr>metadata = file_metadata file, content = raw, optimized = Some False\<rparr>,
                 w)))"

fun processSVGs ::
  "env \<Rightarrow> IconifyLoaderOptions \<Rightarrow> FileInfo list \<Rightarrow> world
     \<Rightarrow> (thrown + ProcessedSVG list) \<times> world"
where
  "processSVGs e options [] w = (Inr [], w)"
| "processSVGs e options (file # rest) w =
     (case processSVG e options file w of
        (Inl error, w') \<Rightarrow> (Inl error, w')
      | (Inr item, w') \<Rightarrow>
          (case processSVGs e options rest w' of
             (Inl error, w'') \<Rightarrow> (Inl error, w'')
           | (Inr items, w'') \<Rightarrow> (Inr (item # items), w'')))"

definition generateOutput ::
  "env \<Rightarrow> IconifyLoaderOptions \<Rightarrow> ProcessedSVG list \<Rightarrow> world
     \<Rightarrow> (thrown + GenerationResult) \<times> world"
where
  "generateOutput e options svgs w =
     (if format options = Some ''react''
      then (case generateComponents e options svgs w of (r, w') \<Rightarrow> (Inr r, w'))
      else if format options = Some ''svg''
      then (case generateSVGs e options svgs w of (r, w') \<Rightarrow> (Inr r, w'))
      else if format options = Some ''json''
      then (case generateJSON e options svgs w of (r, w') \<Rightarrow> (Inr r, w'))
      else (Inl (Exn ValidationError
                   (''Unsupported output format: '' @ str_of (format options)) None), w))"

definition process_failed :: "thrown \<Rightarrow> thrown" where
  \<comment> \<open>the \<open>catch\<close> of \<open>process\<close>: every error is wrapped\<close>
  "process_failed error =
     Exn SVGProcessingError (''IconifyLoader process failed: '' @ error_text error) (Some error)"

definition process ::
  "env \<Rightarrow> IconifyLoaderOptions \<Rightarrow> world \<Rightarrow> (thrown + GenerationResult) \<times> world"
where
  "process e options w =
     (let w1 = when_verbose options
                 (\<lambda>w. console_log (''Optimization: ''
                                    @ (if truthy (optimize options) then ''enabled''
                                       else ''disabled''))
                        (console_log (''Output format: '' @ str_of (format options))
                        (console_log (''Input directory: '' @ str_of (inputDir options))
                        (console_log ''Starting IconifyLoader process...'' w)))) w
      in case readSVGs e options of
           Inl error \<Rightarrow> (Inl (process_failed error), w1)
         | Inr svgFiles \<Rightarrow>
             (let w2 = when_verbose options
                         (console_log (''Found '' @ nat_text (length svgFiles) @ '' SVG files''))
                         w1
              in case processSVGs e options svgFiles w2 of
                   (Inl error, w3) \<Rightarrow> (Inl (process_failed error), w3)
                 | (Inr processedSVGs, w3) \<Rightarrow>
                     (case generateOutput e options processedSVGs w3 of
                        (Inl error, w4) \<Rightarrow> (Inl (process_failed error), w4)
                      | (Inr result, w4) \<Rightarrow>
                          (Inr result,
                           when_verbose options
                             (\<lambda>w.
                                (let a = console_log (''Generated ''
                                           @ nat_text (length (files result)) @ '' files'')
                                           (console_log ''Process completed successfully!'' w);
                                     b = (if length (errors result) > 0
                                          then console_warn (''Errors: ''
                                                 @ nat_text (length (errors result))) a
                                          else a)
                                 in if length (warnings result) > 0
                                    then console_warn (''Warnings: ''
                                           @ nat_text (length (warnings result))) b
                                    else b))
                             w4))))"

definition load ::
  "env \<Rightarrow> IconifyLoaderOptions \<Rightarrow> world \<Rightarrow> (thrown + GenerationResult) \<times> world"
where
  \<comment> \<open>\<open>new IconifyLoader(options)\<close>, whose constructor validates, then \<open>process()\<close>\<close>
  "load e options w =
     (case IconifyLoader_validateOptions options of
        Inl error \<Rightarrow> (Inl error, w)
      | Inr u \<Rightarrow> process e options w)"

definition getDefaultOptions :: IconifyLoaderOptions where
  \<comment> \<open>a \<open>Partial<IconifyLoaderOptions>\<close>: the fields it does not set are absent\<close>
  "getDefaultOptions =
     \<lparr>inputDir = None, outputDir = None, format = None, svgoOptions = None,
      optimize = Some True, generateIndex = Some True, typescript = Some True,
      reactComponentName = None, svgProps = None, fileNameFormatter = None,
      includeSubdirs = Some True,
      ignorePatterns = Some [''node_modules'', ''.git'', ''dist'', ''build''],
      verbose = Some False\<rparr>"

definition or_else :: "'a option \<Rightarrow> 'a option \<Rightarrow> 'a option" where
  \<comment> \<open>one field of \<open>{...defaults, ...userOptions}\<close>\<close>
  "or_else user dflt = (case user of Some x \<Rightarrow> Some x | None \<Rightarrow> dflt)"

definition IconifyLoader_mergeOptions :: "IconifyLoaderOptions \<Rightarrow> IconifyLoaderOptions" where
  "IconifyLoader_mergeOptions userOptions =
     (let defaults = getDefaultOptions in
      \<lparr>inputDir = or_else (inputDir userOptions) (inputDir defaults),
       outputDir = or_else (outputDir userOptions) (outputDir defaults),
       format = or_else (format userOptions) (format defaults),
       svgoOptions = or_else (svgoOptions userOptions) (svgoOptions defaults),
       optimize = or_else (optimize userOptions) (optimize defaults),
       generateIndex = or_else (generateIndex userOptions) (generateIndex defaults),
       typescript = or_else (typescript userOptions) (typescript defaults),
       reactComponentName =
         or_else (reactComponentName userOptions) (reactComponentName defaults),
       svgProps = or_else (svgProps userOptions) (svgProps defaults),
       fileNameFormatter = or_else (fileNameFormatter userOptions) (fileNameFormatter defaults),
       includeSubdirs = or_else (includeSubdirs userOptions) (includeSubdirs defaults),
       ignorePatterns = or_else (ignorePatterns userOptions) (ignorePatterns defaults),
       verbose = or_else (verbose userOptions) (verbose defaults)\<rparr>)"


section \<open>Sample inputs\<close>


definition plain_env :: "FileInfo list \<Rightarrow> env" where
  "plain_env found =
     \<lparr>path_join = (\<lambda>dir file. dir @ ''/'' @ file),
      mkdir_error = (\<lambda>w dir. None),
      writeFile_error = (\<lambda>w file text. None),
      readDirectoryRecursive = (\<lambda>dir subdirs patterns. Inr found),
      svgo = (\<lambda>text config. Returned None text),
      JSON_stringify = (\<lambda>v indent. ''{}''),
      number_text = (\<lambda>x. ''0''),
      percent_text = (\<lambda>saved original. ''0''),
      now_iso = ''2024-01-01T00:00:00.000Z'',
      package_version = ''1.0.0''\<rparr>"

definition basic_options :: "string \<Rightarrow> IconifyLoaderOptions" where
  \<comment> \<open>\<open>{ inputDir: 'icons', format: fmt }\<close>\<close>
  "basic_options fmt =
     \<lparr>inputDir = Some ''icons'', outputDir = None, format = Some fmt, svgoOptions = None,
      optimize = None, generateIndex = None, typescript = None, reactComponentName = None,
      svgProps = None, fileNameFormatter = None, includeSubdirs = None,
      ignorePatterns = None, verbose = None\<rparr>"

definition empty_world :: world where
  "empty_world = \<lparr>fs_calls = [], disk = [], console = []\<rparr>"

definition arrow_markup :: string where
  "arrow_markup =
     ''<svg viewBox='' @ dq @ ''0 0 24 24'' @ dq @ '' width='' @ dq @ ''16'' @ dq
     @ '' height='' @ dq @ ''16'' @ dq @ ''><path d='' @ dq @ ''M0 0h24v24H0z'' @ dq
     @ ''/></svg>''"

definition arrow_file :: FileInfo where
  "arrow_file =
     \<lparr>f_path = ''icons/arrow.svg'', f_name = ''arrow'', f_extension = ''.svg'',
      f_content = Some arrow_markup\<rparr>"

definition icon_namer :: "string \<Rightarrow> string" where
  \<comment> \<open>the formatter of the README, on ASCII names: \<open>(name) => "icon-" + name.toLowerCase()\<close>\<close>
  "icon_namer n = ''icon-'' @ map ascii_lower n"



definition plain_item :: "string \<Rightarrow> ProcessedSVG" where
  \<comment> \<open>a processed item with a one-tag markup and no attributes\<close>
  "plain_item n =
     \<lparr>metadata = \<lparr>name = n, originalName = n, path = ''icons/'' @ n @ ''.svg'', size_bytes = 6,
                   width = None, height = None, viewBox = None, fill = None, stroke = None,
                   strokeWidth = None, className = None\<rparr>,
      content = ''<svg/>'', optimized = Some False\<rparr>"


definition icon_options :: IconifyLoaderOptions where
  \<comment> \<open>the scenario of the custom file namer: format \<open>svg\<close>, two \<open>svgProps\<close> entries\<close>
  "icon_options =
     (basic_options ''svg'')
       \<lparr>outputDir := Some ''out'', fileNameFormatter := Some icon_namer,
        svgProps := Some [(''fill'', PStr ''currentColor''), (''aria-hidden'', PStr ''true'')]\<rparr>"

definition broken_engine :: "env \<Rightarrow> env" where
  \<comment> \<open>the environment whose engine throws on every input\<close>
  "broken_engine e = e\<lparr>svgo := (\<lambda>text config. Threw (Exn PlainError ''parse error'' None))\<rparr>"

section \<open>What a generator asks of the file system\<close>

text \<open>The calls a generator makes when every step is reached, written from its code.\<close>

definition dir_calls :: "IconifyLoaderOptions \<Rightarrow> fs_call list" where
  "dir_calls options =
     (if truthy_str (outputDir options) then [Mkdir (str_of (outputDir options))] else [])"

definition dir_fails :: "env \<Rightarrow> IconifyLoaderOptions \<Rightarrow> world \<Rightarrow> bool" where
  \<comment> \<open>an output directory is asked for and cannot be created\<close>
  "dir_fails e options w =
     (truthy_str (outputDir options) \<and> mkdir_error e w (str_of (outputDir options)) \<noteq> None)"

definition svg_write :: "env \<Rightarrow> IconifyLoaderOptions \<Rightarrow> ProcessedSVG \<Rightarrow> fs_call" where
  "svg_write e options svg =
     WriteFile (output_path e options (svg_fileName options svg))
       (SVG_prepareSVGContent e svg options)"

definition component_write :: "env \<Rightarrow> IconifyLoaderOptions \<Rightarrow> ProcessedSVG \<Rightarrow> fs_call" where
  "component_write e options svg =
     WriteFile
       (output_path e options
          (component_fileName options (getComponentName (name (metadata svg)) options)))
       (renderComponent
          (createComponentTemplate e svg (getComponentName (name (metadata svg)) options)
             options))"

definition aggregate_write :: "env \<Rightarrow> IconifyLoaderOptions \<Rightarrow> ProcessedSVG list \<Rightarrow> fs_call" where
  "aggregate_write e options svgs =
     WriteFile
       (output_path e options
          (case fileNameFormatter options of
             Some formatter \<Rightarrow> formatter ''icons'' @ ''.json''
           | None \<Rightarrow> ''icons.json''))
       (JSON_stringify e (createJSONOutput e svgs options) (indent_of options))"

definition individual_write :: "env \<Rightarrow> IconifyLoaderOptions \<Rightarrow> ProcessedSVG \<Rightarrow> fs_call" where
  "individual_write e options svg =
     WriteFile (individual_path e options svg)
       (JSON_stringify e (createIndividualJSONOutput e svg) (indent_of options))"

section \<open>The optimizer's plugin list\<close>



lemma plugins_merge:
  "plugins (SVGOptimizer_mergeOptions u) = Some (case plugins u of Some ps \<Rightarrow> ps | None \<Rightarrow> [])"
  by (simp add: SVGOptimizer_mergeOptions_def split: option.splits)




text \<open>
  What reaches the engine is another matter: in the configuration object the spread of
  the merged options follows the \<open>plugins\<close> key, and the merged options always carry a
  \<open>plugins\<close> list of their own, so the engine is handed the user's entries alone.
\<close>

lemma svgoConfig_plugins:
  "config_plugins (svgoConfig (SVGOptimizer_mergeOptions u)) =
     (case plugins u of Some ps \<Rightarrow> ps | None \<Rightarrow> [])"
  by (simp add: svgoConfig_def plugins_merge)

section \<open>Validation of the configuration\<close>

text \<open>
  Claim C6. For every configuration whose \<open>inputDir\<close> is missing, whose \<open>format\<close> is
  missing, or whose \<open>format\<close> is none of \<open>svg\<close>, \<open>react\<close>, \<open>json\<close>, the run fails with a
  \<open>ValidationError\<close> thrown by the constructor's validation, and the world is the one
  it started from: no call to the file system was made and nothing is on disk that
  was not there before.
\<close>

theorem C6_invalid_configuration:
  assumes "inputDir options = None \<or> format options = None
           \<or> format options \<notin> {Some ''svg'', Some ''react'', Some ''json''}"
  shows "\<exists>msg. load e options w = (Inl (Exn ValidationError msg None), w)"
proof -
  have "\<not> truthy_str (inputDir options) \<or> \<not> truthy_str (format options)
        \<or> str_of (format options) \<notin> set validFormats"
    using assms by (cases "format options") (auto simp: truthy_str_def str_of_def validFormats_def)
  then show ?thesis
    by (auto simp: load_def IconifyLoader_validateOptions_def)
qed

theorem C6_invalid_configuration_witness:
  "(\<exists>msg. load (plain_env [arrow_file]) ((basic_options ''svg'')\<lparr>inputDir := None\<rparr>) empty_world
            = (Inl (Exn ValidationError msg None), empty_world))
   \<and> (\<exists>msg. load (plain_env [arrow_file]) ((basic_options ''svg'')\<lparr>format := None\<rparr>) empty_world
            = (Inl (Exn ValidationError msg None), empty_world))
   \<and> (\<exists>msg. load (plain_env [arrow_file]) (basic_options ''png'') empty_world
            = (Inl (Exn ValidationError msg None), empty_world))"
  by (intro conjI C6_invalid_configuration) (simp_all add: basic_options_def)





section \<open>The attribute extractor\<close>








section \<open>The generators\<close>

lemma fs_calls_when_verbose [simp]:
  "fs_calls (when_verbose options (console_log s) w) = fs_calls w"
  "fs_calls (when_verbose options (console_warn s) w) = fs_calls w"
  "fs_calls (when_verbose options (console_error s) w) = fs_calls w"
  by (simp_all add: when_verbose_def console_log_def console_warn_def console_error_def)

lemma fs_writeFile_calls:
  "fs_calls (snd (fs_writeFile e p t w)) = fs_calls w @ [WriteFile p t]"
  by (simp add: fs_writeFile_def Let_def split: option.splits)

lemma ensureOutputDirectory_calls:
  "fs_calls (snd (ensureOutputDirectory e dir w)) = fs_calls w @ [Mkdir dir]"
  by (simp add: ensureOutputDirectory_def fs_mkdir_def Let_def split: option.splits)

lemma ensureOutputDirectory_result:
  "(\<exists>u. fst (ensureOutputDirectory e dir w) = Inr u) \<longleftrightarrow> mkdir_error e w dir = None"
  by (simp add: ensureOutputDirectory_def fs_mkdir_def Let_def split: option.splits)

lemma dir_step:
  assumes "\<not> dir_fails e options w"
  shows "\<exists>w1. (if truthy_str (outputDir options)
               then ensureOutputDirectory e (str_of (outputDir options)) w
               else (Inr (), w)) = (Inr (), w1)
              \<and> fs_calls w1 = fs_calls w @ dir_calls options"
proof (cases "truthy_str (outputDir options)")
  case True
  then have "mkdir_error e w (str_of (outputDir options)) = None"
    using assms by (simp add: dir_fails_def)
  then show ?thesis
    using True by (simp add: ensureOutputDirectory_def fs_mkdir_def dir_calls_def)
next
  case False
  then show ?thesis by (simp add: dir_calls_def)
qed

lemma generateSVGFile_calls:
  "fs_calls (snd (generateSVGFile e options svg w)) = fs_calls w @ [svg_write e options svg]"
  using fs_writeFile_calls [of e "output_path e options (svg_fileName options svg)"
      "SVG_prepareSVGContent e svg options" w]
  by (auto simp: generateSVGFile_def svg_write_def Let_def split: prod.splits sum.splits)

lemma svgs_loop_calls:
  "fs_calls (snd (svgs_loop e options svgs (r, w))) =
     fs_calls w @ map (svg_write e options) svgs"
proof (induction svgs arbitrary: r w)
  case Nil
  then show ?case by simp
next
  case (Cons svg svgs)
  show ?case
    using generateSVGFile_calls [of e options svg w]
    by (auto simp: Cons.IH Let_def split: prod.splits sum.splits)
qed


lemma SVG_generateIndexFile_calls:
  "fs_calls (snd (SVG_generateIndexFile e options svgs w)) =
     fs_calls w @ [WriteFile (index_path e options) (SVG_index_content e options svgs)]"
  using fs_writeFile_calls [of e "index_path e options" "SVG_index_content e options svgs" w]
  by (auto simp: SVG_generateIndexFile_def split: prod.splits sum.splits)


lemma generateSVGs_dir_fails:
  assumes "dir_fails e options w"
  shows "fs_calls (snd (generateSVGs e options svgs w)) = fs_calls w @ dir_calls options"
    and "files (fst (generateSVGs e options svgs w)) = []"
    and "length (errors (fst (generateSVGs e options svgs w))) = 1"
  using assms ensureOutputDirectory_calls [of e "str_of (outputDir options)" w]
    ensureOutputDirectory_result [of e "str_of (outputDir options)" w]
  by (auto simp: generateSVGs_def dir_fails_def dir_calls_def empty_result_def
      split: prod.splits sum.splits)

lemma generateSVGs_calls:
  assumes "\<not> dir_fails e options w"
  shows "fs_calls (snd (generateSVGs e options svgs w)) =
           fs_calls w @ dir_calls options @ map (svg_write e options) svgs
           @ (if truthy (generateIndex options)
              then [WriteFile (index_path e options) (SVG_index_content e options svgs)]
              else [])"
proof -
  obtain w1 where d: "(if truthy_str (outputDir options)
            then ensureOutputDirectory e (str_of (outputDir options)) w
            else (Inr (), w)) = (Inr (), w1)" and c1: "fs_calls w1 = fs_calls w @ dir_calls options"
    using dir_step [OF assms] by blast
  obtain r2 w2 where l: "svgs_loop e options svgs (empty_result, w1) = (r2, w2)"
    by (cases "svgs_loop e options svgs (empty_result, w1)")
  have c2: "fs_calls w2 = fs_calls w1 @ map (svg_write e options) svgs"
    using svgs_loop_calls [of e options svgs empty_result w1] l by simp
  show ?thesis
    using SVG_generateIndexFile_calls [of e options svgs w2]
    by (auto simp: generateSVGs_def d l c1 c2 split: prod.splits sum.splits)
qed


lemma generateComponentFile_calls:
  "fs_calls (snd (generateComponentFile e options svg w)) = fs_calls w @ [component_write e options svg]"
  using fs_writeFile_calls [of e
      "output_path e options
         (component_fileName options (getComponentName (name (metadata svg)) options))"
      "renderComponent
         (createComponentTemplate e svg (getComponentName (name (metadata svg)) options)
            options)" w]
  by (auto simp: generateComponentFile_def component_write_def Let_def
      split: prod.splits sum.splits)

lemma components_loop_calls:
  "fs_calls (snd (components_loop e options svgs (r, w))) =
     fs_calls w @ map (component_write e options) svgs"
proof (induction svgs arbitrary: r w)
  case Nil
  then show ?case by simp
next
  case (Cons svg svgs)
  show ?case
    using generateComponentFile_calls [of e options svg w]
    by (auto simp: Cons.IH Let_def split: prod.splits sum.splits)
qed


lemma React_generateIndexFile_calls:
  "fs_calls (snd (React_generateIndexFile e options svgs w)) =
     fs_calls w @ [WriteFile (index_path e options) (React_index_content options svgs)]"
  using fs_writeFile_calls [of e "index_path e options" "React_index_content options svgs" w]
  by (auto simp: React_generateIndexFile_def split: prod.splits sum.splits)


lemma generateComponents_dir_fails:
  assumes "dir_fails e options w"
  shows "fs_calls (snd (generateComponents e options svgs w)) = fs_calls w @ dir_calls options"
    and "files (fst (generateComponents e options svgs w)) = []"
    and "length (errors (fst (generateComponents e options svgs w))) = 1"
  using assms ensureOutputDirectory_calls [of e "str_of (outputDir options)" w]
    ensureOutputDirectory_result [of e "str_of (outputDir options)" w]
  by (auto simp: generateComponents_def dir_fails_def dir_calls_def empty_result_def
      split: prod.splits sum.splits)

lemma generateComponents_calls:
  assumes "\<not> dir_fails e options w"
  shows "fs_calls (snd (generateComponents e options svgs w)) =
           fs_calls w @ dir_calls options @ map (component_write e options) svgs
           @ (if truthy (generateIndex options)
              then [WriteFile (index_path e options) (React_index_content options svgs)]
              else [])"
proof -
  obtain w1 where d: "(if truthy_str (outputDir options)
            then ensureOutputDirectory e (str_of (outputDir options)) w
            else (Inr (), w)) = (Inr (), w1)" and c1: "fs_calls w1 = fs_calls w @ dir_calls options"
    using dir_step [OF assms] by blast
  obtain r2 w2 where l: "components_loop e options svgs (empty_result, w1) = (r2, w2)"
    by (cases "components_loop e options svgs (empty_result, w1)")
  have c2: "fs_calls w2 = fs_calls w1 @ map (component_write e options) svgs"
    using components_loop_calls [of e options svgs empty_result w1] l by simp
  show ?thesis
    using React_generateIndexFile_calls [of e options svgs w2]
    by (auto simp: generateComponents_def d l c1 c2 split: prod.splits sum.splits)
qed


lemma generateJSONFile_calls:
  "fs_calls (snd (generateJSONFile e options svgs w)) =
     fs_calls w @ [aggregate_write e options svgs]"
  by (auto simp: generateJSONFile_def aggregate_write_def fs_writeFile_def Let_def
      split: prod.splits sum.splits option.splits)

lemma generateIndividualJSONFiles_calls:
  "\<exists>n \<le> length svgs.
     fs_calls (snd (generateIndividualJSONFiles e options svgs (fs, w))) =
       fs_calls w @ take n (map (individual_write e options) svgs)"
proof (induction svgs arbitrary: fs w)
  case Nil
  then show ?case by simp
next
  case (Cons svg svgs)
  let ?p = "individual_path e options svg"
  let ?t = "JSON_stringify e (createIndividualJSONOutput e svg) (indent_of options)"
  obtain x w' where step: "fs_writeFile e ?p ?t w = (x, w')"
    by (cases "fs_writeFile e ?p ?t w")
  have c: "fs_calls w' = fs_calls w @ [individual_write e options svg]"
    using fs_writeFile_calls [of e ?p ?t w] step by (simp add: individual_write_def)
  show ?case
  proof (cases x)
    case (Inl error)
    then have "fs_calls (snd (generateIndividualJSONFiles e options (svg # svgs) (fs, w))) =
      fs_calls w @ take 1 (map (individual_write e options) (svg # svgs))"
      using step c by simp
    then show ?thesis
      by (intro exI [of _ 1]) simp
  next
    case (Inr u)
    obtain n where n: "n \<le> length svgs"
      "fs_calls (snd (generateIndividualJSONFiles e options svgs (fs @ [?p], w'))) =
         fs_calls w' @ take n (map (individual_write e options) svgs)"
      using Cons.IH [of "fs @ [?p]" w'] by blast
    have "fs_calls (snd (generateIndividualJSONFiles e options (svg # svgs) (fs, w))) =
      fs_calls w @ take (Suc n) (map (individual_write e options) (svg # svgs))"
      using step Inr n(2) c by simp
    then show ?thesis
      using n(1) by (intro exI [of _ "Suc n"]) simp
  qed
qed


lemma generateJSON_calls:
  assumes "\<not> dir_fails e options w"
  shows "\<exists>n \<le> length svgs.
           fs_calls (snd (generateJSON e options svgs w)) =
             fs_calls w @ dir_calls options @ [aggregate_write e options svgs]
             @ (if truthy (generateIndex options)
                then take n (map (individual_write e options) svgs) else [])"
proof -
  obtain w1 where d: "(if truthy_str (outputDir options)
            then ensureOutputDirectory e (str_of (outputDir options)) w
            else (Inr (), w)) = (Inr (), w1)" and c1: "fs_calls w1 = fs_calls w @ dir_calls options"
    using dir_step [OF assms] by blast
  obtain x w2 where a: "generateJSONFile e options svgs w1 = (x, w2)"
    by (cases "generateJSONFile e options svgs w1")
  have c2: "fs_calls w2 = fs_calls w1 @ [aggregate_write e options svgs]"
    using generateJSONFile_calls [of e options svgs w1] a by simp
  define w2' where "w2' = (case x of
       Inr jsonFile \<Rightarrow> when_verbose options (console_log (''Generated JSON file: '' @ jsonFile)) w2
     | Inl error \<Rightarrow> when_verbose options
                      (console_error (''Failed to generate JSON file: '' @ error_text error)) w2)"
  have c2': "fs_calls w2' = fs_calls w2"
    by (simp add: w2'_def split: sum.splits)
  obtain n where n: "n \<le> length svgs"
    "fs_calls (snd (generateIndividualJSONFiles e options svgs ([], w2'))) =
       fs_calls w2' @ take n (map (individual_write e options) svgs)"
    using generateIndividualJSONFiles_calls [of svgs e options "[]" w2'] by blast
  have "fs_calls (snd (generateJSON e options svgs w)) =
             fs_calls w @ dir_calls options @ [aggregate_write e options svgs]
             @ (if truthy (generateIndex options)
                then take n (map (individual_write e options) svgs) else [])"
    using n(2) c2' c2 c1
    by (auto simp: generateJSON_def d a w2'_def Let_def split: prod.splits sum.splits)
  then show ?thesis
    using n(1) by blast
qed

text \<open>No generator ever adds to \<open>warnings\<close>.\<close>

lemma svgs_loop_warnings:
  "warnings (fst (svgs_loop e options svgs (r, w))) = warnings r"
  by (induction svgs arbitrary: r w) (simp_all add: Let_def split: prod.splits sum.splits)

lemma components_loop_warnings:
  "warnings (fst (components_loop e options svgs (r, w))) = warnings r"
  by (induction svgs arbitrary: r w) (simp_all add: Let_def split: prod.splits sum.splits)

lemma generateSVGs_warnings:
  "warnings (fst (generateSVGs e options svgs w)) = []"
proof -
  have "warnings r2 = []" if "svgs_loop e options svgs (empty_result, w1) = (r2, w2)"
    for r2 w1 w2
    using svgs_loop_warnings [of e options svgs empty_result w1] that
    by (simp add: empty_result_def)
  then show ?thesis
    by (auto simp: generateSVGs_def empty_result_def split: prod.splits sum.splits)
qed

lemma generateComponents_warnings:
  "warnings (fst (generateComponents e options svgs w)) = []"
proof -
  have "warnings r2 = []" if "components_loop e options svgs (empty_result, w1) = (r2, w2)"
    for r2 w1 w2
    using components_loop_warnings [of e options svgs empty_result w1] that
    by (simp add: empty_result_def)
  then show ?thesis
    by (auto simp: generateComponents_def empty_result_def split: prod.splits sum.splits)
qed

lemma generateJSON_warnings:
  "warnings (fst (generateJSON e options svgs w)) = []"
  by (auto simp: generateJSON_def empty_result_def Let_def split: prod.splits sum.splits)




section \<open>The pipeline\<close>

text \<open>
  Claim C3, at its scenario: \<open>arrow.svg\<close>, format \<open>svg\<close>, a file namer that returns
  \<open>icon-\<close> and the lower-cased name, and two \<open>svgProps\<close> entries. The root tag of the
  written text keeps its three attributes and carries the two new ones after them, as
  the claim says. The file, however, is written as \<open>out/icon-arrow\<close>: the generator uses
  the namer's result as the whole file name and adds \<open>.svg\<close> only when there is no
  namer, so no \<open>icon-arrow.svg\<close> exists afterwards.
\<close>

theorem C3_scenario:
  "fst (load (plain_env [arrow_file]) icon_options empty_world)
     = Inr \<lparr>success = True, files = [''out/icon-arrow''], errors = [], warnings = []\<rparr>
   \<and> fs_calls (snd (load (plain_env [arrow_file]) icon_options empty_world))
     = [Mkdir ''out'',
        WriteFile ''out/icon-arrow''
          (''<svg viewBox='' @ dq @ ''0 0 24 24'' @ dq @ '' width='' @ dq @ ''16'' @ dq
           @ '' height='' @ dq @ ''16'' @ dq @ '' fill='' @ dq @ ''currentColor'' @ dq
           @ '' aria-hidden='' @ dq @ ''true'' @ dq @ ''>'' @ nl
           @ ''<path d='' @ dq @ ''M0 0h24v24H0z'' @ dq @ ''/>'' @ nl
           @ ''</svg>'')]
   \<and> map_of (disk (snd (load (plain_env [arrow_file]) icon_options empty_world)))
       ''out/icon-arrow.svg''
     = None"
proof -
  have run: "load (plain_env [arrow_file]) icon_options empty_world
     = (Inr \<lparr>success = True, files = [''out/icon-arrow''], errors = [], warnings = []\<rparr>,
        \<lparr>fs_calls =
           [Mkdir ''out'',
            WriteFile ''out/icon-arrow''
              (''<svg viewBox='' @ dq @ ''0 0 24 24'' @ dq @ '' width='' @ dq @ ''16'' @ dq
               @ '' height='' @ dq @ ''16'' @ dq @ '' fill='' @ dq @ ''currentColor'' @ dq
               @ '' aria-hidden='' @ dq @ ''true'' @ dq @ ''>'' @ nl
               @ ''<path d='' @ dq @ ''M0 0h24v24H0z'' @ dq @ ''/>'' @ nl
               @ ''</svg>'')],
         disk =
           [(''out/icon-arrow'',
             ''<svg viewBox='' @ dq @ ''0 0 24 24'' @ dq @ '' width='' @ dq @ ''16'' @ dq
             @ '' height='' @ dq @ ''16'' @ dq @ '' fill='' @ dq @ ''currentColor'' @ dq
             @ '' aria-hidden='' @ dq @ ''true'' @ dq @ ''>'' @ nl
             @ ''<path d='' @ dq @ ''M0 0h24v24H0z'' @ dq @ ''/>'' @ nl
             @ ''</svg>'')],
         console = []\<rparr>)"
    by code_simp
  show ?thesis
    unfolding run by simp
qed

text \<open>
  Claim C2, as stated, fails on the class of the error: \<open>readSVGs\<close> throws the
  \<open>ValidationError\<close>, but it does so inside the \<open>try\<close> of \<open>process\<close>, whose \<open>catch\<close> wraps
  every error in an \<open>SVGProcessingError\<close>. What \<open>load\<close> raises is not an instance of
  \<open>ValidationError\<close>.
\<close>

theorem C2_counterexample:
  "fst (load (plain_env []) (basic_options ''svg'') empty_world)
     = Inl (Exn SVGProcessingError
              ''IconifyLoader process failed: No SVG files found in directory: icons''
              (Some (Exn ValidationError ''No SVG files found in directory: icons'' None)))
   \<and> \<not> instanceof
         (Exn SVGProcessingError
            ''IconifyLoader process failed: No SVG files found in directory: icons''
            (Some (Exn ValidationError ''No SVG files found in directory: icons'' None)))
         ValidationError"
  by code_simp

text \<open>
  Claim C2, amended. If the walker finds no SVG files in the input directory (an empty
  result), the run performed by \<open>process\<close>, and by \<open>load\<close> once the configuration has
  passed validation, fails by raising an \<open>SVGProcessingError\<close> whose message is
  \<open>IconifyLoader process failed: No SVG files found in directory: \<close> followed by the
  directory, and whose \<open>originalError\<close> is the \<open>ValidationError\<close> stating that no files
  were found; no call to the file system is made.
\<close>

theorem C2_empty_input_fails:
  assumes "readSVGFiles e (str_of (inputDir options)) (includeSubdirs options)
             (ignorePatterns options) = Inr []"
  shows "fst (process e options w)
           = Inl (Exn SVGProcessingError
                    (''IconifyLoader process failed: No SVG files found in directory: ''
                     @ str_of (inputDir options))
                    (Some (Exn ValidationError
                             (''No SVG files found in directory: '' @ str_of (inputDir options))
                             None)))
         \<and> fs_calls (snd (process e options w)) = fs_calls w
         \<and> disk (snd (process e options w)) = disk w
         \<and> (IconifyLoader_validateOptions options = Inr ()
              \<longrightarrow> load e options w = process e options w)"
proof -
  have r: "readSVGs e options
             = Inl (Exn ValidationError
                      (''No SVG files found in directory: '' @ str_of (inputDir options)) None)"
    using assms by (simp add: readSVGs_def instanceof_def)
  show ?thesis
    by (simp add: process_def r process_failed_def error_text_def load_def Let_def
        when_verbose_def console_log_def)
qed

theorem C2_empty_input_fails_witness:
  "readSVGFiles (plain_env []) ''icons'' None None = Inr []
   \<and> fst (process (plain_env []) (basic_options ''svg'') empty_world)
     = Inl (Exn SVGProcessingError
              ''IconifyLoader process failed: No SVG files found in directory: icons''
              (Some (Exn ValidationError ''No SVG files found in directory: icons'' None)))"
proof -
  have h: "readSVGFiles (plain_env []) (str_of (inputDir (basic_options ''svg'')))
             (includeSubdirs (basic_options ''svg'')) (ignorePatterns (basic_options ''svg''))
           = Inr []"
    by (simp add: readSVGFiles_def plain_env_def basic_options_def)
  show ?thesis
    using h C2_empty_input_fails [OF h, of empty_world]
    by (simp add: basic_options_def str_of_def)
qed

text \<open>
  Claim C4, as stated, fails on the warning: the \<open>catch\<close> around the optimizer prints its
  warning only under \<open>if (this.options.verbose)\<close> and adds nothing to the result's
  \<open>warnings\<close>. With optimization on, \<open>verbose\<close> unset and an engine that throws, the file
  goes through un-optimized and nothing at all is printed or recorded.
\<close>

theorem C4_counterexample:
  "fst (processSVGs (broken_engine (plain_env [])) ((basic_options ''svg'')\<lparr>optimize := Some True\<rparr>)
          [arrow_file] empty_world)
     = Inr [\<lparr>metadata = file_metadata arrow_file, content = arrow_markup,
              optimized = Some False\<rparr>]
   \<and> console (snd (processSVGs (broken_engine (plain_env []))
                     ((basic_options ''svg'')\<lparr>optimize := Some True\<rparr>) [arrow_file] empty_world))
     = []
   \<and> warnings (fst (generateSVGs (broken_engine (plain_env []))
                      ((basic_options ''svg'')\<lparr>optimize := Some True\<rparr>)
                      [\<lparr>metadata = file_metadata arrow_file, content = arrow_markup,
                         optimized = Some False\<rparr>] empty_world))
     = []"
proof -
  let ?e = "broken_engine (plain_env [])"
  let ?o = "(basic_options ''svg'')\<lparr>optimize := Some True\<rparr>"
  have v: "validateSVGContent (f_content arrow_file) (f_name arrow_file) = Inr ()"
    by code_simp
  have f: "optimizeSVG (svgo ?e) markup so
           = Inl (Exn SVGProcessingError
                    ''Unexpected error during SVG optimization: parse error''
                    (Some (Exn PlainError ''parse error'' None)))" for markup so
    by (simp add: optimizeSVG_def broken_engine_def plain_env_def instanceof_def error_text_def)
  have c: "str_of (f_content arrow_file) = arrow_markup"
    by (simp add: arrow_file_def str_of_def)
  have p: "processSVGs ?e ?o [arrow_file] empty_world
           = (Inr [\<lparr>metadata = file_metadata arrow_file, content = arrow_markup,
                     optimized = Some False\<rparr>], empty_world)"
    by (simp add: processSVG_def v f c when_verbose_def truthy_def basic_options_def)
  show ?thesis
    unfolding p by (simp add: empty_world_def generateSVGs_warnings)
qed

text \<open>
  Claim C4, amended. For every file of the batch with optimization enabled, if the
  optimizer fails for that file, the failure is caught by the orchestrator and is not
  fatal: the file is passed on with its un-optimized content and its \<open>optimized\<close> flag
  \<open>false\<close>, and the batch continues with the remaining files. The failure is reported
  as a console warning only when \<open>verbose\<close> is set; otherwise it leaves no trace.
\<close>

theorem C4_optimizer_failure_is_skipped:
  assumes "truthy (optimize options)"
    and "validateSVGContent (f_content file) (f_name file) = Inr ()"
    and "optimizeSVG (svgo e) (str_of (f_content file)) (svgoOptions options) = Inl error"
  shows "processSVG e options file w
           = (Inr \<lparr>metadata = file_metadata file, content = str_of (f_content file),
                   optimized = Some False\<rparr>,
              if truthy (verbose options)
              then console_warn (''Failed to optimize '' @ f_name file @ '': ''
                                 @ error_text error) w
              else w)
         \<and> processSVGs e options (file # rest) w
           = (case processSVGs e options rest (snd (processSVG e options file w)) of
                (Inl later, w') \<Rightarrow> (Inl later, w')
              | (Inr items, w') \<Rightarrow>
                  (Inr (\<lparr>metadata = file_metadata file, content = str_of (f_content file),
                         optimized = Some False\<rparr> # items), w'))"
proof -
  have one: "processSVG e options file w
           = (Inr \<lparr>metadata = file_metadata file, content = str_of (f_content file),
                   optimized = Some False\<rparr>,
              if truthy (verbose options)
              then console_warn (''Failed to optimize '' @ f_name file @ '': ''
                                 @ error_text error) w
              else w)"
    using assms by (simp add: processSVG_def when_verbose_def Let_def)
  show ?thesis
    unfolding processSVGs.simps one by simp
qed

theorem C4_optimizer_failure_is_skipped_witness:
  "truthy (optimize ((basic_options ''svg'')\<lparr>optimize := Some True, verbose := Some True\<rparr>))
   \<and> processSVG (broken_engine (plain_env []))
        ((basic_options ''svg'')\<lparr>optimize := Some True, verbose := Some True\<rparr>)
        arrow_file empty_world
     = (Inr \<lparr>metadata = file_metadata arrow_file, content = arrow_markup,
             optimized = Some False\<rparr>,
        empty_world\<lparr>console := [ConsoleWarn
          ''Failed to optimize arrow: Unexpected error during SVG optimization: parse error'']\<rparr>)"
proof -
  let ?o = "(basic_options ''svg'')\<lparr>optimize := Some True, verbose := Some True\<rparr>"
  let ?e = "broken_engine (plain_env [])"
  have 1: "truthy (optimize ?o)"
    by (simp add: truthy_def basic_options_def)
  have 2: "validateSVGContent (f_content arrow_file) (f_name arrow_file) = Inr ()"
    by code_simp
  have 3: "optimizeSVG (svgo ?e) (str_of (f_content arrow_file)) (svgoOptions ?o)
           = Inl (Exn SVGProcessingError
                    ''Unexpected error during SVG optimization: parse error''
                    (Some (Exn PlainError ''parse error'' None)))"
    by (simp add: optimizeSVG_def broken_engine_def plain_env_def basic_options_def
        instanceof_def error_text_def)
  show ?thesis
    using 1 C4_optimizer_failure_is_skipped [OF 1 2 3, of empty_world "[]"]
    by (simp add: truthy_def basic_options_def arrow_file_def str_of_def console_warn_def
        empty_world_def error_text_def)
qed

section \<open>The React component text\<close>




section \<open>The options as given\<close>

text \<open>
  Outside \<open>processSVGs\<close> nothing reads the engine, so swapping the engine changes no other
  step of a run.
\<close>

lemma engine_free_basic [simp]:
  "fs_mkdir (e\<lparr>svgo := g\<rparr>) = fs_mkdir e"
  "fs_writeFile (e\<lparr>svgo := g\<rparr>) = fs_writeFile e"
  "output_path (e\<lparr>svgo := g\<rparr>) = output_path e"
  "String_prim (e\<lparr>svgo := g\<rparr>) = String_prim e"
  "readSVGFiles (e\<lparr>svgo := g\<rparr>) = readSVGFiles e"
  "createJSONOutput (e\<lparr>svgo := g\<rparr>) = createJSONOutput e"
  "createIndividualJSONOutput (e\<lparr>svgo := g\<rparr>) = createIndividualJSONOutput e"
  by (simp_all add: fun_eq_iff fs_mkdir_def fs_writeFile_def output_path_def String_prim_def
      readSVGFiles_def createJSONOutput_def createIndividualJSONOutput_def
      cong: if_cong prim.case_cong option.case_cong prod.case_cong sum.case_cong)

lemma engine_free_paths [simp]:
  "ensureOutputDirectory (e\<lparr>svgo := g\<rparr>) = ensureOutputDirectory e"
  "index_path (e\<lparr>svgo := g\<rparr>) = index_path e"
  "individual_path (e\<lparr>svgo := g\<rparr>) = individual_path e"
  "generateProps (e\<lparr>svgo := g\<rparr>) = generateProps e"
  "addCustomAttributes (e\<lparr>svgo := g\<rparr>) = addCustomAttributes e"
  "generateJSONFile (e\<lparr>svgo := g\<rparr>) = generateJSONFile e"
  "readSVGs (e\<lparr>svgo := g\<rparr>) = readSVGs e"
  by (simp_all add: fun_eq_iff ensureOutputDirectory_def index_path_def individual_path_def
      generateProps_def addCustomAttributes_def generateJSONFile_def readSVGs_def
      cong: if_cong prim.case_cong option.case_cong prod.case_cong sum.case_cong)

lemma engine_free_content [simp]:
  "createComponentTemplate (e\<lparr>svgo := g\<rparr>) = createComponentTemplate e"
  "SVG_prepareSVGContent (e\<lparr>svgo := g\<rparr>) = SVG_prepareSVGContent e"
  "React_generateIndexFile (e\<lparr>svgo := g\<rparr>) = React_generateIndexFile e"
  by (simp_all add: fun_eq_iff createComponentTemplate_def SVG_prepareSVGContent_def
      React_generateIndexFile_def
      cong: if_cong prim.case_cong option.case_cong prod.case_cong sum.case_cong)

lemma engine_free_files [simp]:
  "generateComponentFile (e\<lparr>svgo := g\<rparr>) = generateComponentFile e"
  "generateSVGFile (e\<lparr>svgo := g\<rparr>) = generateSVGFile e"
  "SVG_index_content (e\<lparr>svgo := g\<rparr>) = SVG_index_content e"
  by (simp_all add: fun_eq_iff generateComponentFile_def generateSVGFile_def
      SVG_index_content_def
      cong: if_cong option.case_cong prod.case_cong sum.case_cong)

lemma engine_free_loops [simp]:
  "components_loop (e\<lparr>svgo := g\<rparr>) options svgs rw = components_loop e options svgs rw"
  "svgs_loop (e\<lparr>svgo := g\<rparr>) options svgs rw = svgs_loop e options svgs rw"
  "generateIndividualJSONFiles (e\<lparr>svgo := g\<rparr>) options svgs fw
     = generateIndividualJSONFiles e options svgs fw"
proof -
  show "components_loop (e\<lparr>svgo := g\<rparr>) options svgs rw = components_loop e options svgs rw"
    by (induction e options svgs rw rule: components_loop.induct)
       (simp_all cong: if_cong prod.case_cong sum.case_cong)
  show "svgs_loop (e\<lparr>svgo := g\<rparr>) options svgs rw = svgs_loop e options svgs rw"
    by (induction e options svgs rw rule: svgs_loop.induct)
       (simp_all cong: if_cong prod.case_cong sum.case_cong)
  show "generateIndividualJSONFiles (e\<lparr>svgo := g\<rparr>) options svgs fw
     = generateIndividualJSONFiles e options svgs fw"
    by (induction e options svgs fw rule: generateIndividualJSONFiles.induct)
       (simp_all cong: if_cong prod.case_cong sum.case_cong)
qed

lemma engine_free_generators [simp]:
  "generateComponents (e\<lparr>svgo := g\<rparr>) = generateComponents e"
  "generateSVGs (e\<lparr>svgo := g\<rparr>) = generateSVGs e"
  "generateJSON (e\<lparr>svgo := g\<rparr>) = generateJSON e"
  unfolding fun_eq_iff generateComponents_def generateSVGs_def generateJSON_def
    SVG_generateIndexFile_def engine_free_basic engine_free_paths engine_free_content
    engine_free_files engine_free_loops
  by (rule allI refl)+

lemma engine_free_output [simp]:
  "generateOutput (e\<lparr>svgo := g\<rparr>) = generateOutput e"
  unfolding fun_eq_iff generateOutput_def engine_free_generators
  by (rule allI refl)+

lemma processSVG_unoptimized:
  assumes "\<not> truthy (optimize options)"
  shows "processSVG (e\<lparr>svgo := g\<rparr>) options file w = processSVG e options file w"
    and "fst (processSVG e options file w) = Inr item \<Longrightarrow>
         item = \<lparr>metadata = file_metadata file, content = str_of (f_content file),
                 optimized = Some False\<rparr>"
  using assms by (auto simp: processSVG_def Let_def split: sum.splits)

lemma processSVGs_unoptimized:
  assumes "\<not> truthy (optimize options)"
  shows "processSVGs (e\<lparr>svgo := g\<rparr>) options found w = processSVGs e options found w"
  using assms
  by (induction found arbitrary: w)
     (simp_all add: processSVG_unoptimized(1) split: prod.splits sum.splits)

lemma processSVGs_items:
  assumes "\<not> truthy (optimize options)"
  shows "processSVGs e options found w = (Inr items, w') \<Longrightarrow>
         items = map (\<lambda>file. \<lparr>metadata = file_metadata file, content = str_of (f_content file),
                                optimized = Some False\<rparr>) found"
proof (induction found arbitrary: w items)
  case Nil
  then show ?case by simp
next
  case (Cons f rest)
  then show ?case
    using processSVG_unoptimized(2) [OF assms, of e f w]
    by (fastforce split: prod.splits sum.splits)
qed

lemma load_engine_free:
  assumes "\<not> truthy (optimize options)"
  shows "load (e\<lparr>svgo := g\<rparr>) options w = load e options w"
  unfolding load_def process_def processSVGs_unoptimized [OF assms] engine_free_output
    engine_free_paths
  by (rule refl)

lemma generateJSON_dir_fails:
  assumes "dir_fails e options w"
  shows "fs_calls (snd (generateJSON e options svgs w)) = fs_calls w @ dir_calls options"
  using assms ensureOutputDirectory_calls [of e "str_of (outputDir options)" w]
    ensureOutputDirectory_result [of e "str_of (outputDir options)" w]
  by (auto simp: generateJSON_def dir_fails_def dir_calls_def empty_result_def
      split: prod.splits sum.splits)

lemma mergeOptions_defaults:
  "optimize getDefaultOptions = Some True"
  "generateIndex getDefaultOptions = Some True"
  "optimize options = None \<Longrightarrow> optimize (IconifyLoader_mergeOptions options) = Some True"
  "generateIndex options = None
   \<Longrightarrow> generateIndex (IconifyLoader_mergeOptions options) = Some True"
  by (simp_all add: getDefaultOptions_def IconifyLoader_mergeOptions_def or_else_def Let_def)

text \<open>
  Claim C9. \<open>getDefaultOptions\<close> declares \<open>optimize: true\<close> and \<open>generateIndex: true\<close>, and
  \<open>mergeOptions\<close> would turn both on in a configuration that omits them; \<open>load\<close> and
  \<open>process\<close> use the configuration as it was given. So for every configuration that
  omits \<open>optimize\<close>, the run does not depend on the engine at all, and every processed
  item carries the content of its file and the flag \<open>optimized = false\<close>; and for every
  configuration that omits \<open>generateIndex\<close>, a generator makes the calls for the output
  directory and for its own files, and none for an index (for JSON: none for the
  per-icon files).
\<close>

theorem C9_defaults_not_applied:
  "optimize getDefaultOptions = Some True \<and> generateIndex getDefaultOptions = Some True
   \<and> (optimize options = None \<longrightarrow>
        optimize (IconifyLoader_mergeOptions options) = Some True
        \<and> load (e\<lparr>svgo := engine\<rparr>) options w = load e options w
        \<and> processSVGs (e\<lparr>svgo := engine\<rparr>) options found w = processSVGs e options found w
        \<and> (case fst (processSVGs e options found w) of
              Inl error \<Rightarrow> True
            | Inr items \<Rightarrow>
                items = map (\<lambda>file. \<lparr>metadata = file_metadata file,
                                       content = str_of (f_content file),
                                       optimized = Some False\<rparr>) found))
   \<and> (generateIndex options = None \<longrightarrow>
        generateIndex (IconifyLoader_mergeOptions options) = Some True
        \<and> fs_calls (snd (generateComponents e options svgs w)) =
            fs_calls w @ dir_calls options
            @ (if dir_fails e options w then [] else map (component_write e options) svgs)
        \<and> fs_calls (snd (generateSVGs e options svgs w)) =
            fs_calls w @ dir_calls options
            @ (if dir_fails e options w then [] else map (svg_write e options) svgs)
        \<and> fs_calls (snd (generateJSON e options svgs w)) =
            fs_calls w @ dir_calls options
            @ (if dir_fails e options w then [] else [aggregate_write e options svgs]))"
proof (intro conjI impI)
  assume o: "optimize options = None"
  then have n: "\<not> truthy (optimize options)"
    by (simp add: truthy_def)
  show "optimize (IconifyLoader_mergeOptions options) = Some True"
    using o by (rule mergeOptions_defaults)
  show "load (e\<lparr>svgo := engine\<rparr>) options w = load e options w"
    using n by (rule load_engine_free)
  show "processSVGs (e\<lparr>svgo := engine\<rparr>) options found w = processSVGs e options found w"
    using n by (rule processSVGs_unoptimized)
  show "case fst (processSVGs e options found w) of
          Inl error \<Rightarrow> True
        | Inr items \<Rightarrow>
            items = map (\<lambda>file. \<lparr>metadata = file_metadata file,
                                   content = str_of (f_content file),
                                   optimized = Some False\<rparr>) found"
    using processSVGs_items [OF n, of e found w]
    by (cases "processSVGs e options found w") (auto split: sum.splits)
next
  assume g: "generateIndex options = None"
  then have n: "\<not> truthy (generateIndex options)"
    by (simp add: truthy_def)
  show "generateIndex (IconifyLoader_mergeOptions options) = Some True"
    using g by (rule mergeOptions_defaults)
  show "fs_calls (snd (generateComponents e options svgs w)) =
            fs_calls w @ dir_calls options
            @ (if dir_fails e options w then [] else map (component_write e options) svgs)"
    using n generateComponents_calls [of e options w svgs]
      generateComponents_dir_fails(1) [of e options w svgs]
    by (cases "dir_fails e options w") simp_all
  show "fs_calls (snd (generateSVGs e options svgs w)) =
            fs_calls w @ dir_calls options
            @ (if dir_fails e options w then [] else map (svg_write e options) svgs)"
    using n generateSVGs_calls [of e options w svgs]
      generateSVGs_dir_fails(1) [of e options w svgs]
    by (cases "dir_fails e options w") simp_all
  show "fs_calls (snd (generateJSON e options svgs w)) =
            fs_calls w @ dir_calls options
            @ (if dir_fails e options w then [] else [aggregate_write e options svgs])"
    using n generateJSON_calls [of e options w svgs]
      generateJSON_dir_fails [of e options w svgs]
    by (cases "dir_fails e options w") auto
qed (rule mergeOptions_defaults)+

theorem C9_defaults_not_applied_witness:
  "optimize (basic_options ''svg'') = None \<and> generateIndex (basic_options ''svg'') = None
   \<and> fst (processSVGs (plain_env []) (basic_options ''svg'') [arrow_file] empty_world)
     = Inr [\<lparr>metadata = file_metadata arrow_file, content = arrow_markup,
              optimized = Some False\<rparr>]
   \<and> fs_calls (snd (generateSVGs (plain_env []) (basic_options ''svg'') [plain_item ''a'']
                      empty_world))
     = [svg_write (plain_env []) (basic_options ''svg'') (plain_item ''a'')]
   \<and> fst (load (plain_env [arrow_file]) (basic_options ''svg'') empty_world)
     = Inr \<lparr>success = True, files = [''./arrow.svg''], errors = [], warnings = []\<rparr>
   \<and> fst (load (plain_env [arrow_file]) (IconifyLoader_mergeOptions (basic_options ''svg''))
            empty_world)
     = Inr \<lparr>success = True, files = [''./arrow.svg'', ''./index.ts''], errors = [],
            warnings = []\<rparr>"
proof -
  let ?o = "basic_options ''svg''"
  have o: "optimize ?o = None" "generateIndex ?o = None"
    by (simp_all add: basic_options_def)
  have v: "validateSVGContent (f_content arrow_file) (f_name arrow_file) = Inr ()"
    by code_simp
  have c: "str_of (f_content arrow_file) = arrow_markup"
    by (simp add: arrow_file_def str_of_def)
  have p: "\<exists>items. fst (processSVGs (plain_env []) ?o [arrow_file] empty_world) = Inr items"
    by (simp add: processSVG_def v truthy_def basic_options_def)
  have d: "\<not> dir_fails (plain_env []) ?o empty_world" "dir_calls ?o = []"
    by (simp_all add: dir_fails_def dir_calls_def basic_options_def truthy_str_def)
  have l1: "fst (load (plain_env [arrow_file]) ?o empty_world)
     = Inr \<lparr>success = True, files = [''./arrow.svg''], errors = [], warnings = []\<rparr>"
    by code_simp
  have l2: "fst (load (plain_env [arrow_file]) (IconifyLoader_mergeOptions ?o) empty_world)
     = Inr \<lparr>success = True, files = [''./arrow.svg'', ''./index.ts''], errors = [],
            warnings = []\<rparr>"
    by code_simp
  show ?thesis
    using o p d l1 l2
      C9_defaults_not_applied [where options = ?o and e = "plain_env []" and w = empty_world
        and found = "[arrow_file]" and svgs = "[plain_item ''a'']"]
    by (auto simp: c empty_world_def)
qed

end
